(* ===== verification/Prelude.thy ===== *)
theory Prelude
  imports Main
begin

text \<open>
  Shared vocabulary of the storefront development: the JavaScript array
  operations the source calls (\<open>Array.prototype.findIndex\<close>, \<open>filter\<close> with an
  index argument, \<open>reduce\<close>, \<open>join\<close>), the exception-propagating bind that models
  \<open>try\<close>/\<open>throw\<close> inside an async function, the decimal printing of integers that
  JavaScript's \<open>String(n)\<close> performs, and the collections of facts that the
  component theories extend.
\<close>

named_theorems handler_defs "definitions of event handlers, unfolded together in step proofs"
named_theorems js_simps "evaluation rules of the JavaScript built-ins modelled here"

subsection \<open>Exceptions as sum values\<close>

text \<open>
  A computation that may throw returns \<open>Inl e\<close> for the thrown value and \<open>Inr a\<close> for
  a normal result. \<open>exn_bind\<close> sequences two such computations: the first throw ends
  the block, as it does in the body of a \<open>try\<close>.
\<close>

definition exn_bind :: "'e + 'a \<Rightarrow> ('a \<Rightarrow> 'e + 'b) \<Rightarrow> 'e + 'b" where
  "exn_bind m f = (case m of Inl e \<Rightarrow> Inl e | Inr a \<Rightarrow> f a)"

lemma exn_bind_Inl [simp, js_simps]: "exn_bind (Inl e) f = Inl e"
  and exn_bind_Inr [simp, js_simps]: "exn_bind (Inr a) f = f a"
  by (simp_all add: exn_bind_def)

lemma exn_bind_eq_Inr:
  "exn_bind m f = Inr b \<longleftrightarrow> (\<exists>a. m = Inr a \<and> f a = Inr b)"
  by (cases m) auto

subsection \<open>\<open>Array.prototype.findIndex\<close>\<close>

text \<open>
  The loop of \<open>findIndex\<close>: the first index whose element satisfies the
  predicate, or \<open>-1\<close>. JavaScript numbers are represented by \<open>int\<close>.
\<close>

fun find_index_from :: "('a \<Rightarrow> bool) \<Rightarrow> 'a list \<Rightarrow> nat \<Rightarrow> int" where
  "find_index_from p [] i = -1"
| "find_index_from p (x # xs) i = (if p x then int i else find_index_from p xs (Suc i))"

definition js_find_index :: "('a \<Rightarrow> bool) \<Rightarrow> 'a list \<Rightarrow> int" where
  "js_find_index p xs = find_index_from p xs 0"

lemma find_index_from_none:
  "(find_index_from p xs i = -1) \<longleftrightarrow> (\<forall>x \<in> set xs. \<not> p x)"
  by (induction xs arbitrary: i) auto

lemma find_index_from_found:
  "find_index_from p xs i \<noteq> -1 \<Longrightarrow>
     \<exists>k < length xs. find_index_from p xs i = int (i + k) \<and> p (xs ! k) \<and> (\<forall>j < k. \<not> p (xs ! j))"
proof (induction xs arbitrary: i)
  case Nil
  then show ?case by simp
next
  case (Cons x xs)
  show ?case
  proof (cases "p x")
    case True
    then show ?thesis by auto
  next
    case False
    with Cons.prems have "find_index_from p xs (Suc i) \<noteq> -1" by simp
    from Cons.IH [OF this] obtain k where
      "k < length xs" "find_index_from p xs (Suc i) = int (Suc i + k)"
      "p (xs ! k)" "\<forall>j < k. \<not> p (xs ! j)"
      by blast
    with False show ?thesis
      by (intro exI [of _ "Suc k"]) (auto simp: less_Suc_eq_0_disj)
  qed
qed

lemma find_index_from_snoc:
  "\<forall>x \<in> set xs. \<not> p x \<Longrightarrow> p y \<Longrightarrow> find_index_from p (xs @ [y]) i = int (i + length xs)"
  by (induction xs arbitrary: i) auto

lemma js_find_index_snoc:
  "\<forall>x \<in> set xs. \<not> p x \<Longrightarrow> p y \<Longrightarrow> js_find_index p (xs @ [y]) = int (length xs)"
  by (simp add: js_find_index_def find_index_from_snoc)

lemma js_find_index_none [js_simps]:
  "(js_find_index p xs = -1) \<longleftrightarrow> (\<forall>x \<in> set xs. \<not> p x)"
  by (simp add: js_find_index_def find_index_from_none)

lemma js_find_index_found:
  assumes "js_find_index p xs \<noteq> -1"
  obtains k where "js_find_index p xs = int k" "k < length xs" "p (xs ! k)"
    "\<forall>j < k. \<not> p (xs ! j)"
  using find_index_from_found [of p xs 0] assms
  by (auto simp: js_find_index_def)

text \<open>When at most one element satisfies the predicate, \<open>findIndex\<close> finds that one.\<close>

lemma js_find_index_unique:
  assumes "k < length xs" "p (xs ! k)" "\<forall>j < length xs. p (xs ! j) \<longrightarrow> j = k"
  shows "js_find_index p xs = int k"
proof -
  from assms(1,2) have "js_find_index p xs \<noteq> -1"
    by (auto simp: js_find_index_none dest: bspec [OF _ nth_mem])
  then obtain k' where "js_find_index p xs = int k'" "k' < length xs" "p (xs ! k')"
    by (rule js_find_index_found)
  with assms(3) show ?thesis by auto
qed

subsection \<open>\<open>Array.prototype.filter\<close> with the index argument\<close>

fun filter_idx_from :: "('a \<Rightarrow> nat \<Rightarrow> bool) \<Rightarrow> 'a list \<Rightarrow> nat \<Rightarrow> 'a list" where
  "filter_idx_from p [] i = []"
| "filter_idx_from p (x # xs) i =
     (if p x i then x # filter_idx_from p xs (Suc i) else filter_idx_from p xs (Suc i))"

definition js_filter_idx :: "('a \<Rightarrow> nat \<Rightarrow> bool) \<Rightarrow> 'a list \<Rightarrow> 'a list" where
  "js_filter_idx p xs = filter_idx_from p xs 0"

lemma filter_idx_from_skip:
  "filter_idx_from (\<lambda>_ j. j \<noteq> n) xs i =
     (if n < i then xs else take (n - i) xs @ drop (Suc (n - i)) xs)"
proof (induction xs arbitrary: i)
  case Nil
  then show ?case by simp
next
  case (Cons x xs)
  then show ?case
    by (auto simp: take_Cons' drop_Cons' Suc_diff_Suc)
qed

lemma set_filter_idx_from: "set (filter_idx_from p xs i) \<subseteq> set xs"
  by (induction xs arbitrary: i) auto

lemma distinct_map_filter_idx_from:
  "distinct (map f xs) \<Longrightarrow> distinct (map f (filter_idx_from p xs i))"
proof (induction xs arbitrary: i)
  case Nil
  then show ?case by simp
next
  case (Cons x xs)
  have "f x \<notin> f ` set (filter_idx_from p xs (Suc i))"
    using Cons.prems set_filter_idx_from [of p xs "Suc i"] by auto
  with Cons show ?case by simp
qed

lemma set_js_filter_idx: "set (js_filter_idx p xs) \<subseteq> set xs"
  and distinct_map_js_filter_idx: "distinct (map f xs) \<Longrightarrow> distinct (map f (js_filter_idx p xs))"
  by (simp_all add: js_filter_idx_def set_filter_idx_from distinct_map_filter_idx_from)

text \<open>Filtering out one index is deletion at that position; beyond the end it changes nothing.\<close>

lemma js_filter_idx_skip:
  "js_filter_idx (\<lambda>_ j. j \<noteq> n) xs = take n xs @ drop (Suc n) xs"
  by (simp add: js_filter_idx_def filter_idx_from_skip)

text \<open>Deleting the element at an index, as the event loop does with a settled continuation.\<close>

lemma in_set_remove_nth:
  "x \<in> set xs \<Longrightarrow> xs ! k \<noteq> x \<Longrightarrow> k < length xs \<Longrightarrow> x \<in> set (take k xs @ drop (Suc k) xs)"
  by (metis Un_iff append_Cons id_take_nth_drop set_ConsD set_append)

lemma count_list_remove_nth:
  assumes "k < length xs"
  shows "count_list (take k xs @ drop (Suc k) xs) x = count_list xs x - (if xs ! k = x then 1 else 0)"
proof -
  have "count_list xs x = count_list (take k xs @ xs ! k # drop (Suc k) xs) x"
    by (rule arg_cong [where f = "\<lambda>ys. count_list ys x", OF id_take_nth_drop [OF assms]])
  then show ?thesis by simp
qed

subsection \<open>Filtering with a predicate that may throw\<close>

fun filter_exn :: "('a \<Rightarrow> 'e + bool) \<Rightarrow> 'a list \<Rightarrow> 'e + 'a list" where
  "filter_exn p [] = Inr []"
| "filter_exn p (x # xs) =
     exn_bind (p x) (\<lambda>b. exn_bind (filter_exn p xs) (\<lambda>ys. Inr (if b then x # ys else ys)))"

lemma filter_exn_Inr:
  "(\<forall>x \<in> set xs. \<exists>b. p x = Inr b) \<Longrightarrow>
     filter_exn p xs = Inr (filter (\<lambda>x. p x = Inr True) xs)"
  by (induction xs) auto

lemma filter_exn_result_set:
  "filter_exn p xs = Inr ys \<Longrightarrow> set ys = {x \<in> set xs. p x = Inr True}"
  by (induction xs arbitrary: ys) (auto simp: exn_bind_eq_Inr split: if_splits)

subsection \<open>Mapping with a function that may throw\<close>

text \<open>\<open>xs.map(f)\<close> where \<open>f\<close> may throw: the first throw, in order, ends the map.\<close>

fun exn_map :: "('a \<Rightarrow> 'e + 'b) \<Rightarrow> 'a list \<Rightarrow> 'e + 'b list" where
  "exn_map f [] = Inr []"
| "exn_map f (x # xs) = exn_bind (f x) (\<lambda>y. exn_bind (exn_map f xs) (\<lambda>ys. Inr (y # ys)))"

lemma exn_map_Inr:
  "(\<forall>x \<in> set xs. f x = Inr (g x)) \<Longrightarrow> exn_map f xs = Inr (map g xs)"
  by (induction xs) auto

lemma isl_exn_map: "isl (exn_map f xs) \<longleftrightarrow> (\<exists>x \<in> set xs. isl (f x))"
  by (induction xs) (auto simp: exn_bind_def split: sum.split)

subsection \<open>\<open>Array.prototype.join\<close> and decimal printing\<close>

fun join_with :: "string \<Rightarrow> string list \<Rightarrow> string" where
  "join_with sep [] = []"
| "join_with sep [s] = s"
| "join_with sep (s # ss) = s @ sep @ join_with sep ss"

definition digit_char :: "nat \<Rightarrow> char" where
  "digit_char d = char_of (48 + d)"

fun string_of_nat :: "nat \<Rightarrow> string" where
  "string_of_nat n =
     (if n < 10 then [digit_char n] else string_of_nat (n div 10) @ [digit_char (n mod 10)])"

declare string_of_nat.simps [simp del]

definition string_of_int :: "int \<Rightarrow> string" where
  "string_of_int i = (if i < 0 then CHR ''-'' # string_of_nat (nat (- i)) else string_of_nat (nat i))"

lemma string_of_nat_nonempty: "string_of_nat n \<noteq> []"
  by (subst string_of_nat.simps) simp

end
