(* ===== verification/Cart.thy ===== *)
theory Cart
  imports Prelude "HOL-Library.Multiset"
begin

text \<open>
  The cart store of \<open>src/src/App.jsx\<close>: the products the catalog delivers, the
  cart lines held in the \<open>cart\<close> state, the updater that \<open>onAdd\<close> passes to
  \<open>setCart\<close>, the filter that \<open>removeItem\<close> passes to it, and the total that
  \<open>src/src/components/Cart.jsx\<close> computes with \<open>reduce\<close>. The cart is the ordered
  list of lines the code keeps; its abstraction is the multiset of product identifiers,
  one copy per unit ordered. Adding is shown to act on that multiset as the spec's
  \<open>add\<close> does; removal is characterised on the list itself.
\<close>

subsection \<open>Data\<close>

text \<open>A product as the backend describes it (\<open>_id\<close>, \<open>title\<close>, \<open>category\<close>, \<open>price\<close>, \<open>image\<close>).\<close>

record product =
  prod_id :: string
  prod_title :: string
  prod_category :: string
  prod_price :: int
  prod_image :: "string option"

text \<open>A cart line \<open>{_id, title, price, qty}\<close>: price and title copied when first added.\<close>

record cart_line =
  line_id :: string
  line_title :: string
  line_price :: int
  qty :: nat

type_synonym cart = "cart_line list"

subsection \<open>Operations\<close>

definition new_line :: "product \<Rightarrow> cart_line" where
  "new_line p = \<lparr>line_id = prod_id p, line_title = prod_title p, line_price = prod_price p, qty = 1\<rparr>"

text \<open>
  The updater of \<open>onAdd\<close>: find the line of the product; if there is one, copy the
  array and replace that line by one with \<open>qty + 1\<close>; otherwise append a new line
  with quantity 1.
\<close>

definition on_add :: "product \<Rightarrow> cart \<Rightarrow> cart" where
  "on_add p prev =
     (let idx = js_find_index (\<lambda>x. line_id x = prod_id p) prev in
      if idx \<noteq> -1 then prev[nat idx := (prev ! nat idx)\<lparr>qty := qty (prev ! nat idx) + 1\<rparr>]
      else prev @ [new_line p])"

text \<open>The updater of \<open>removeItem idx\<close>: \<open>prev.filter((_, i) => i !== idx)\<close>.\<close>

definition remove_item :: "nat \<Rightarrow> cart \<Rightarrow> cart" where
  "remove_item idx prev = js_filter_idx (\<lambda>_ i. i \<noteq> idx) prev"

text \<open>\<open>items.reduce((sum, i) => sum + i.price * i.qty, 0)\<close> in \<open>Cart.jsx\<close>.\<close>

definition cart_total :: "cart \<Rightarrow> int" where
  "cart_total items = foldl (\<lambda>sum i. sum + line_price i * int (qty i)) 0 items"

declare on_add_def [handler_defs] remove_item_def [handler_defs]

subsection \<open>Invariant and abstraction\<close>

text \<open>At most one line per product identifier, and every line has a positive quantity.\<close>

definition cart_wf :: "cart \<Rightarrow> bool" where
  "cart_wf c \<longleftrightarrow> distinct (map line_id c) \<and> (\<forall>l \<in> set c. 0 < qty l)"

definition line_units :: "cart_line \<Rightarrow> string multiset" where
  "line_units l = replicate_mset (qty l) (line_id l)"

text \<open>The abstract cart: each product identifier as often as units of it are ordered.\<close>

definition cart_bag :: "cart \<Rightarrow> string multiset" where
  "cart_bag c = sum_list (map line_units c)"

lemma cart_wf_Nil [simp]: "cart_wf []"
  by (simp add: cart_wf_def)

lemma cart_bag_Nil [simp]: "cart_bag [] = {#}"
  and cart_bag_append [simp]: "cart_bag (xs @ ys) = cart_bag xs + cart_bag ys"
  and cart_bag_Cons [simp]: "cart_bag (x # xs) = line_units x + cart_bag xs"
  by (simp_all add: cart_bag_def)

lemma line_units_subset: "k < length c \<Longrightarrow> line_units (c ! k) \<subseteq># cart_bag c"
proof (induction c arbitrary: k)
  case Nil
  then show ?case by simp
next
  case (Cons x xs)
  then show ?case by (cases k) (auto intro: subset_mset.add_increasing)
qed

lemma cart_bag_update:
  "k < length c \<Longrightarrow> cart_bag (c[k := l]) = cart_bag c - line_units (c ! k) + line_units l"
proof (induction c arbitrary: k)
  case Nil
  then show ?case by simp
next
  case (Cons x xs)
  show ?case
  proof (cases k)
    case 0
    then show ?thesis by simp
  next
    case (Suc n)
    with Cons.prems have n: "n < length xs" by simp
    then have sub: "line_units (xs ! n) \<subseteq># cart_bag xs" by (rule line_units_subset)
    have "cart_bag ((x # xs)[k := l]) = line_units x + (cart_bag xs - line_units (xs ! n) + line_units l)"
      using Suc Cons.IH [OF n] by simp
    also have "\<dots> = line_units x + cart_bag xs - line_units (xs ! n) + line_units l"
      by (simp only: multiset_diff_union_assoc [OF sub] add.assoc)
    finally show ?thesis using Suc by simp
  qed
qed

subsection \<open>The two branches of \<open>onAdd\<close>\<close>

lemma on_add_found:
  assumes "js_find_index (\<lambda>x. line_id x = prod_id p) c = int k"
  shows "on_add p c = c[k := (c ! k)\<lparr>qty := qty (c ! k) + 1\<rparr>]"
  using assms by (simp add: on_add_def)

lemma on_add_absent:
  assumes "prod_id p \<notin> line_id ` set c"
  shows "on_add p c = c @ [new_line p]"
proof -
  from assms have "\<forall>x \<in> set c. line_id x \<noteq> prod_id p" by force
  then show ?thesis by (simp add: on_add_def js_find_index_none)
qed

text \<open>In a well-formed cart the line found is the unique line of the product.\<close>

lemma on_add_existing:
  assumes "cart_wf c" "k < length c" "line_id (c ! k) = prod_id p"
  shows "on_add p c = c[k := (c ! k)\<lparr>qty := qty (c ! k) + 1\<rparr>]"
proof -
  from assms(1) have dist: "distinct (map line_id c)" by (simp add: cart_wf_def)
  have uniq: "\<forall>j < length c. line_id (c ! j) = prod_id p \<longrightarrow> j = k"
  proof (intro allI impI)
    fix j
    assume j: "j < length c" "line_id (c ! j) = prod_id p"
    with assms(2,3) have eq: "map line_id c ! j = map line_id c ! k" by simp
    have lj: "j < length (map line_id c)" and lk: "k < length (map line_id c)"
      using j(1) assms(2) by simp_all
    show "j = k" using nth_eq_iff_index_eq [OF dist lj lk] eq by blast
  qed
  have "js_find_index (\<lambda>x. line_id x = prod_id p) c = int k"
  proof (rule js_find_index_unique [where p = "\<lambda>x. line_id x = prod_id p"])
    show "k < length c" by (rule assms(2))
    show "line_id (c ! k) = prod_id p" by (rule assms(3))
    show "\<forall>j < length c. line_id (c ! j) = prod_id p \<longrightarrow> j = k" by (rule uniq)
  qed
  then show ?thesis by (rule on_add_found)
qed

lemma on_add_cases:
  obtains (found) k where "k < length c" "line_id (c ! k) = prod_id p"
      "on_add p c = c[k := (c ! k)\<lparr>qty := qty (c ! k) + 1\<rparr>]"
  | (absent) "prod_id p \<notin> line_id ` set c" "on_add p c = c @ [new_line p]"
proof (cases "js_find_index (\<lambda>x. line_id x = prod_id p) c = -1")
  case True
  then have "prod_id p \<notin> line_id ` set c" by (auto simp: js_find_index_none)
  then show ?thesis using absent on_add_absent by blast
next
  case False
  then obtain k where "js_find_index (\<lambda>x. line_id x = prod_id p) c = int k"
      "k < length c" "line_id (c ! k) = prod_id p"
    by (rule js_find_index_found)
  then show ?thesis using found on_add_found by blast
qed

lemma on_add_ids:
  "map line_id (on_add p c) =
     (if prod_id p \<in> line_id ` set c then map line_id c else map line_id c @ [prod_id p])"
proof (cases rule: on_add_cases [of c p])
  case (found k)
  then have "prod_id p \<in> line_id ` set c" by (metis image_eqI nth_mem)
  moreover have "(map line_id c)[k := prod_id p] = map line_id c"
    by (metis found(1,2) length_map list_update_id nth_map)
  ultimately show ?thesis using found by (simp add: map_update)
next
  case absent
  then show ?thesis by (simp add: new_line_def)
qed

lemma on_add_wf:
  assumes "cart_wf c"
  shows "cart_wf (on_add p c)"
proof (cases rule: on_add_cases [of c p])
  case (found k)
  have "distinct (map line_id (on_add p c))"
    using assms by (simp add: on_add_ids cart_wf_def)
  moreover have "\<forall>l \<in> set (on_add p c). 0 < qty l"
    using assms found by (auto simp: cart_wf_def dest: set_update_subset_insert [THEN subsetD])
  ultimately show ?thesis by (simp add: cart_wf_def)
next
  case absent
  with assms show ?thesis by (auto simp: cart_wf_def new_line_def)
qed

text \<open>
  C2. Refinement of the spec's \<open>add(product)\<close>: the abstract cart of \<open>onAdd p\<close> is
  the abstract cart with one more unit of \<open>p\<close>, on every cart.
\<close>

theorem on_add_refines: "cart_bag (on_add p c) = add_mset (prod_id p) (cart_bag c)"
proof (cases rule: on_add_cases [of c p])
  case (found k)
  then have "line_units (c ! k) \<subseteq># cart_bag c"
    by (simp add: line_units_subset)
  have units: "line_units ((c ! k)\<lparr>qty := qty (c ! k) + 1\<rparr>) = add_mset (prod_id p) (line_units (c ! k))"
    using found(2) by (simp add: line_units_def)
  have "cart_bag (on_add p c) = cart_bag c - line_units (c ! k) + add_mset (prod_id p) (line_units (c ! k))"
    using found(1,3) by (simp only: cart_bag_update units)
  also have "\<dots> = add_mset (prod_id p) (cart_bag c)"
    using \<open>line_units (c ! k) \<subseteq># cart_bag c\<close> by (simp add: subset_mset.diff_add)
  finally show ?thesis .
next
  case absent
  then show ?thesis by (simp add: line_units_def new_line_def)
qed

text \<open>C3. Adding the same product twice yields one line with quantity 2, not two lines.\<close>

theorem add_twice_one_line:
  assumes "prod_id p \<notin> line_id ` set c"
  shows "on_add p (on_add p c) = c @ [(new_line p)\<lparr>qty := 2\<rparr>]"
proof -
  have first: "on_add p c = c @ [new_line p]" using assms by (rule on_add_absent)
  from assms have "\<forall>x \<in> set c. line_id x \<noteq> prod_id p" by force
  then have "js_find_index (\<lambda>x. line_id x = prod_id p) (c @ [new_line p]) = int (length c)"
    by (intro js_find_index_snoc) (simp_all add: new_line_def)
  then have "on_add p (c @ [new_line p]) = (c @ [new_line p])[length c := (new_line p)\<lparr>qty := qty (new_line p) + 1\<rparr>]"
    by (simp add: on_add_found)
  with first show ?thesis by (simp add: new_line_def)
qed

subsection \<open>\<open>removeItem\<close>\<close>

lemma remove_item_eq: "remove_item idx c = take idx c @ drop (Suc idx) c"
  by (simp add: remove_item_def js_filter_idx_skip)

text \<open>
  C5. Removing position \<open>k\<close> deletes exactly the line at \<open>k\<close>, keeping the others in
  order, and one line fewer remains; an out-of-range position leaves the cart unchanged.
\<close>

theorem remove_item_spec:
  "remove_item k c = (if k < length c then take k c @ drop (Suc k) c else c) \<and>
   length (remove_item k c) = (if k < length c then length c - 1 else length c)"
  by (simp add: remove_item_eq)

lemma remove_item_wf: "cart_wf c \<Longrightarrow> cart_wf (remove_item idx c)"
  unfolding cart_wf_def remove_item_def
  using set_js_filter_idx [of "\<lambda>_ i. i \<noteq> idx" c] distinct_map_js_filter_idx [of line_id c]
  by blast

subsection \<open>Witnesses\<close>

theorem add_twice_one_line_witness:
  "let p = \<lparr>prod_id = ''p2'', prod_title = ''Anklet'', prod_category = ''oxidised'',
             prod_price = 250, prod_image = None\<rparr>;
       c = [\<lparr>line_id = ''p1'', line_title = ''Ring'', line_price = 100, qty = 1\<rparr>]
   in prod_id p \<notin> line_id ` set c \<and>
      on_add p (on_add p c) =
        [\<lparr>line_id = ''p1'', line_title = ''Ring'', line_price = 100, qty = 1\<rparr>,
         \<lparr>line_id = ''p2'', line_title = ''Anklet'', line_price = 250, qty = 2\<rparr>]"
  using add_twice_one_line [of "\<lparr>prod_id = ''p2'', prod_title = ''Anklet'', prod_category = ''oxidised'',
             prod_price = 250, prod_image = None\<rparr>"
      "[\<lparr>line_id = ''p1'', line_title = ''Ring'', line_price = 100, qty = 1\<rparr>]"]
  by (simp add: new_line_def)

end
