(* ===== verification/Json.thy ===== *)
theory Json
  imports Prelude
begin

text \<open>
  The JavaScript values the storefront receives from its backend and the operations
  the source applies to them: property access (which throws on \<open>null\<close>), the
  truthiness test behind \<open>a || b\<close>, conversion to a string (\<open>new Error(x)\<close>,
  template literals), the exceptions the async handlers catch, and the outcome of one
  \<open>fetch\<close> followed by \<open>res.json()\<close>. A value that may be \<open>undefined\<close> is a
  \<open>json option\<close>, with \<open>None\<close> for \<open>undefined\<close>. JSON numbers are integers in
  this model (prices are whole rupees); fractional numbers and floating-point rounding
  are not modelled.
\<close>

datatype json =
    JNull
  | JBool bool
  | JNum int
  | JStr string
  | JArr "json list"
  | JObj "(string \<times> json) list"

text \<open>
  The exceptions the handlers can observe: \<open>new Error(m)\<close> raised by the code itself,
  \<open>TypeError\<close> (a rejected \<open>fetch\<close>, reading a property of \<open>null\<close>, calling a
  missing method) and \<open>SyntaxError\<close> (\<open>res.json()\<close> on a body that is not JSON).
  Each carries its \<open>message\<close>.
\<close>

datatype js_exn = Error string | Type_error string | Syntax_error string

fun exn_message :: "js_exn \<Rightarrow> string" where
  "exn_message (Error m) = m"
| "exn_message (Type_error m) = m"
| "exn_message (Syntax_error m) = m"

subsection \<open>Property access\<close>

text \<open>
  \<open>v.k\<close> on a value parsed from JSON: an object yields its member (the last one when
  the text repeats a key, as \<open>JSON.parse\<close> keeps the last), \<open>null\<close> throws
  V8's \<open>TypeError\<close>, and any other primitive or array yields \<open>undefined\<close> for the
  member names this program reads (none of them is a built-in property such as
  \<open>length\<close>).
\<close>

definition null_read :: "string \<Rightarrow> js_exn" where
  "null_read k = Type_error (''Cannot read properties of null (reading '' @ [CHR 0x27] @ k @ [CHR 0x27] @ '')'')"

definition js_get :: "json \<Rightarrow> string \<Rightarrow> js_exn + json option" where
  "js_get v k =
     (case v of
        JObj kvs \<Rightarrow> Inr (map_of (rev kvs) k)
      | JNull \<Rightarrow> Inl (null_read k)
      | _ \<Rightarrow> Inr None)"

lemma js_get_JObj [simp, js_simps]: "js_get (JObj kvs) k = Inr (map_of (rev kvs) k)"
  and js_get_JStr [simp, js_simps]: "js_get (JStr s) k = Inr None"
  and js_get_JNum [simp, js_simps]: "js_get (JNum n) k = Inr None"
  and js_get_JBool [simp, js_simps]: "js_get (JBool b) k = Inr None"
  and js_get_JArr [simp, js_simps]: "js_get (JArr xs) k = Inr None"
  by (simp_all add: js_get_def)

lemma js_get_JNull [simp, js_simps]: "js_get JNull k = Inl (null_read k)"
  by (simp add: js_get_def)

lemma js_get_Inl: "js_get v k = Inl e \<longleftrightarrow> v = JNull \<and> e = null_read k"
  by (cases v) (auto simp: js_get_def)

subsection \<open>Truthiness and \<open>||\<close>\<close>

fun js_truthy :: "json option \<Rightarrow> bool" where
  "js_truthy None = False"
| "js_truthy (Some JNull) = False"
| "js_truthy (Some (JBool b)) = b"
| "js_truthy (Some (JNum n)) = (n \<noteq> 0)"
| "js_truthy (Some (JStr s)) = (s \<noteq> [])"
| "js_truthy (Some (JArr xs)) = True"
| "js_truthy (Some (JObj kvs)) = True"

text \<open>\<open>a || b\<close>: \<open>a\<close> when it is truthy, otherwise \<open>b\<close>.\<close>

definition js_or :: "json option \<Rightarrow> json option \<Rightarrow> json option" where
  "js_or a b = (if js_truthy a then a else b)"

subsection \<open>Conversion to string\<close>

text \<open>
  \<open>String(v)\<close> for a JSON value: arrays are joined with commas, \<open>null\<close> elements
  printing as the empty string, and every object prints as \<open>[object Object]\<close>.
\<close>

fun js_to_string :: "json \<Rightarrow> string" where
  "js_to_string JNull = ''null''"
| "js_to_string (JBool b) = (if b then ''true'' else ''false'')"
| "js_to_string (JNum n) = string_of_int n"
| "js_to_string (JStr s) = s"
| "js_to_string (JArr xs) =
     join_with '','' (map (\<lambda>x. if x = JNull then [] else js_to_string x) xs)"
| "js_to_string (JObj kvs) = ''[object Object]''"

text \<open>A template literal \<open>`${v}`\<close>, where \<open>v\<close> may be \<open>undefined\<close>.\<close>

definition js_template :: "json option \<Rightarrow> string" where
  "js_template v = (case v of None \<Rightarrow> ''undefined'' | Some x \<Rightarrow> js_to_string x)"

text \<open>
  \<open>new Error(x).message\<close> for a defined \<open>x\<close>. The code only builds errors from
  \<open>data.detail || 'fallback'\<close>, which is never \<open>undefined\<close>.
\<close>

definition error_of :: "json option \<Rightarrow> js_exn" where
  "error_of x = Error (js_template x)"

subsection \<open>A value as a React child\<close>

text \<open>
  \<open>{v}\<close> in JSX: \<open>null\<close>, \<open>undefined\<close> and booleans render nothing, numbers
  and strings render as text, an array renders its elements one after the other, and
  a plain object makes React throw. The thrown message also lists the object's keys;
  that suffix is not modelled, since no code of the page catches the error.
\<close>

definition react_object_error :: js_exn where
  "react_object_error = Error ''Objects are not valid as a React child''"

fun jsx_text :: "json \<Rightarrow> js_exn + string"
  and jsx_texts :: "json list \<Rightarrow> js_exn + string" where
  "jsx_text JNull = Inr []"
| "jsx_text (JBool b) = Inr []"
| "jsx_text (JNum n) = Inr (string_of_int n)"
| "jsx_text (JStr s) = Inr s"
| "jsx_text (JArr xs) = jsx_texts xs"
| "jsx_text (JObj kvs) = Inl react_object_error"
| "jsx_texts [] = Inr []"
| "jsx_texts (x # xs) = exn_bind (jsx_text x) (\<lambda>s. exn_bind (jsx_texts xs) (\<lambda>t. Inr (s @ t)))"

definition jsx_child :: "json option \<Rightarrow> js_exn + string" where
  "jsx_child v = (case v of None \<Rightarrow> Inr [] | Some x \<Rightarrow> jsx_text x)"

subsection \<open>One request: \<open>await fetch(...)\<close> then \<open>await res.json()\<close>\<close>

text \<open>
  What the network gives back for one request: the \<open>fetch\<close> promise rejects (with a
  \<open>TypeError\<close> whose message the browser chooses), or a response arrives with its
  \<open>ok\<close> flag (status 200-299) and a body that parses as JSON or does not (then
  \<open>res.json()\<close> rejects with a \<open>SyntaxError\<close>).
\<close>

datatype body = Json json | Malformed string

datatype reply = Rejected string | Reply bool body

fun read_json :: "reply \<Rightarrow> js_exn + bool \<times> json" where
  "read_json (Rejected m) = Inl (Type_error m)"
| "read_json (Reply ok (Malformed m)) = Inl (Syntax_error m)"
| "read_json (Reply ok (Json d)) = Inr (ok, d)"

text \<open>
  The check that follows each call of the checkout,
  \<open>if (!res.ok) throw new Error(data.detail || fallback)\<close>.
\<close>

definition check_ok :: "bool \<Rightarrow> json \<Rightarrow> string \<Rightarrow> js_exn + unit" where
  "check_ok ok d fallback =
     (if ok then Inr ()
      else exn_bind (js_get d ''detail'') (\<lambda>detail. Inl (error_of (js_or detail (Some (JStr fallback))))))"

lemma check_ok_True [simp]: "check_ok True d fb = Inr ()"
  by (simp add: check_ok_def)

lemma check_ok_detail:
  "js_get d ''detail'' = Inr (Some (JStr m)) \<Longrightarrow> m \<noteq> [] \<Longrightarrow> check_ok False d fb = Inl (Error m)"
  by (simp add: check_ok_def js_or_def error_of_def js_template_def)

lemma check_ok_fallback:
  "js_get d ''detail'' = Inr v \<Longrightarrow> \<not> js_truthy v \<Longrightarrow> check_ok False d fb = Inl (Error fb)"
  by (simp add: check_ok_def js_or_def error_of_def js_template_def)

lemma check_ok_False_Inl: "\<exists>e. check_ok False d fb = Inl e"
  by (cases "js_get d ''detail''") (auto simp: check_ok_def)

end
