(* ===== verification/Form.thy ===== *)
theory Form
  imports Json
begin

text \<open>
  The local state of \<open>src/src/components/ContactForm.jsx\<close>: the four text fields
  (\<open>form\<close>), the in-progress flag (\<open>loading\<close>, here \<open>busy\<close>) and the status line
  (\<open>status\<close>, \<open>null\<close> or a string), with the pure parts of its handlers: the field
  update of \<open>handleChange\<close>, the HTML \<open>required\<close> check and \<open>disabled\<close> button that
  gate submission, and the state changes \<open>handleSubmit\<close> makes before and after its
  request. Issuing the request and notifying the parent are in \<open>Inquiry\<close>.
\<close>

record form_fields =
  fname :: string
  femail :: string
  fphone :: string
  fmessage :: string

definition empty_form :: form_fields where
  "empty_form = \<lparr>fname = [], femail = [], fphone = [], fmessage = []\<rparr>"

text \<open>The \<open>name\<close> attribute of the input that fired \<open>onChange\<close>.\<close>

datatype form_field = Name | Email | Phone | Message

text \<open>\<open>handleChange\<close>: \<open>setForm({...form, [e.target.name]: e.target.value})\<close>.\<close>

fun set_field :: "form_field \<Rightarrow> string \<Rightarrow> form_fields \<Rightarrow> form_fields" where
  "set_field Name v f = f\<lparr>fname := v\<rparr>"
| "set_field Email v f = f\<lparr>femail := v\<rparr>"
| "set_field Phone v f = f\<lparr>fphone := v\<rparr>"
| "set_field Message v f = f\<lparr>fmessage := v\<rparr>"

record contact_form =
  entries :: form_fields
  busy :: bool
  status :: "string option"

definition init_contact_form :: contact_form where
  "init_contact_form = \<lparr>entries = empty_form, busy = False, status = None\<rparr>"

text \<open>
  The browser submits the form only when the three \<open>required\<close> controls are
  non-empty and the submit button is not \<open>disabled={loading}\<close>.
\<close>

definition form_valid :: "form_fields \<Rightarrow> bool" where
  "form_valid f \<longleftrightarrow> fname f \<noteq> [] \<and> femail f \<noteq> [] \<and> fmessage f \<noteq> []"

definition submit_enabled :: "contact_form \<Rightarrow> bool" where
  "submit_enabled f \<longleftrightarrow> \<not> busy f \<and> form_valid (entries f)"

text \<open>\<open>setLoading(true); setStatus(null)\<close> before the request.\<close>

definition start_submit :: "contact_form \<Rightarrow> contact_form" where
  "start_submit f = f\<lparr>busy := True, status := None\<rparr>"

text \<open>
  After the request: \<open>res.ok\<close> is the success test; a rejected \<open>fetch\<close> throws and
  lands in the \<open>catch\<close> like a failed status. The body is never read.
\<close>

fun inquiry_ok :: "reply \<Rightarrow> bool" where
  "inquiry_ok (Rejected m) = False"
| "inquiry_ok (Reply ok b) = ok"

definition thanks_status :: string where
  "thanks_status = ''Thanks! We will reach out shortly.''"

definition retry_status :: string where
  "retry_status = ''Something went wrong. Please try again.''"

text \<open>The \<open>try\<close> branch on success, the \<open>catch\<close> branch, and \<open>finally\<close> in both.\<close>

definition finish_submit :: "bool \<Rightarrow> contact_form \<Rightarrow> contact_form" where
  "finish_submit ok f =
     (if ok then f\<lparr>status := Some thanks_status, entries := empty_form, busy := False\<rparr>
      else f\<lparr>status := Some retry_status, busy := False\<rparr>)"

lemma finish_submit_not_busy: "\<not> busy (finish_submit ok f)"
  by (simp add: finish_submit_def)

lemma start_submit_blocks: "\<not> submit_enabled (start_submit f)"
  by (simp add: submit_enabled_def start_submit_def)

end
