(* ===== verification/Store.thy ===== *)
theory Store
  imports Cart Form
begin

text \<open>
  The state of the running page. \<open>app_state\<close> holds the six \<open>useState\<close> slots of
  \<open>App\<close> in \<open>src/src/App.jsx\<close> (lines 14-19). A \<open>world\<close> adds what the browser
  keeps around them: the mounted \<open>ContactForm\<close> instance and its local state, the
  requests sent so far, the continuations of the async handlers that wait for a reply
  (one per request in flight), and whether rendering has failed. The router
  (\<open>setRoute\<close>, with the mounting and unmounting of the contact form it causes) and
  the message slot (\<open>setMessage\<close>) are here because every component writes them.
\<close>

record app_state =
  route :: string
  products :: json
  category :: string
  cart :: cart
  loading :: bool
  message :: string

definition init_app :: app_state where
  "init_app = \<lparr>route = ''home'', products = JArr [], category = ''all'', cart = [],
     loading = False, message = []\<rparr>"

text \<open>An element of \<open>items\<close> in the body of \<open>POST /api/orders\<close>.\<close>

record order_item =
  product_id :: string
  item_title :: string
  item_price :: int
  item_qty :: nat

text \<open>The requests the page sends, with the parts of their bodies the code fills in.\<close>

datatype request =
    Get_products "string option"  \<comment> \<open>\<open>GET /api/products\<close>, with its \<open>category\<close> parameter\<close>
  | Post_order "order_item list" string string  \<comment> \<open>items, customer name, customer email\<close>
  | Post_intent "json option"  \<comment> \<open>\<open>order_id\<close>; \<open>undefined\<close> is left out of the JSON\<close>
  | Post_confirm "json option" bool "json option"  \<comment> \<open>\<open>order_id\<close>, \<open>success\<close>, \<open>reference\<close>\<close>
  | Post_inquiry form_fields

text \<open>
  Where an async handler is suspended, with the local values its continuation still
  reads: \<open>loadProducts\<close> after \<open>fetch\<close>; \<open>checkout\<close> after each of its three
  calls (after the second it holds \<open>orderData.order_id\<close>, after the third also
  \<open>piData.reference\<close>); \<open>handleSubmit\<close> of one form instance.
\<close>

datatype task =
    Await_products
  | Await_order
  | Await_intent "json option"
  | Await_confirm "json option" "json option"
  | Await_inquiry nat

text \<open>
  The backend base URL: \<open>import.meta.env.VITE_BACKEND_URL || 'http://localhost:8000'\<close>,
  read once by \<open>App.jsx\<close> and again in each submission of \<open>ContactForm.jsx\<close>. An
  unset variable (\<open>None\<close>) and an empty one both give the default.
\<close>

definition default_backend :: string where
  "default_backend = ''http://localhost:8000''"

definition backend_base :: "string option \<Rightarrow> string" where
  "backend_base env = (case env of None \<Rightarrow> default_backend | Some s \<Rightarrow> if s = [] then default_backend else s)"

record world =
  app :: app_state
  form :: "(nat \<times> contact_form) option"
  next_form :: nat
  pending :: "task list"
  sent :: "request list"
  crashed :: bool
  base_url :: string

text \<open>Calling \<open>fetch\<close> and suspending on it.\<close>

definition issue :: "request \<Rightarrow> task \<Rightarrow> world \<Rightarrow> world" where
  "issue r t w = w\<lparr>sent := sent w @ [r], pending := pending w @ [t]\<rparr>"

definition set_message :: "string \<Rightarrow> world \<Rightarrow> world" where
  "set_message m w = w\<lparr>app := (app w)\<lparr>message := m\<rparr>\<rparr>"

subsection \<open>Router\<close>

text \<open>
  \<open>App\<close> renders a \<open>ContactForm\<close> inside the \<open>home\<close> panel and another inside
  the \<open>contact\<close> panel; they sit in different slots of the tree, so each change of
  route unmounts the form shown before (its state is lost) and mounts a fresh one if
  the new route shows a form. Setting the route to its current value is a no-op.
\<close>

definition shows_form :: "string \<Rightarrow> bool" where
  "shows_form r \<longleftrightarrow> r = ''home'' \<or> r = ''contact''"

definition set_route :: "string \<Rightarrow> world \<Rightarrow> world" where
  "set_route r w =
     (if r = route (app w) then w
      else w\<lparr>app := (app w)\<lparr>route := r\<rparr>,
             form := (if shows_form r then Some (next_form w, init_contact_form) else None),
             next_form := (if shows_form r then Suc (next_form w) else next_form w)\<rparr>)"

lemma issue_app [simp]: "app (issue r t w) = app w"
  and issue_form [simp]: "form (issue r t w) = form w"
  and issue_pending [simp]: "pending (issue r t w) = pending w @ [t]"
  and issue_sent [simp]: "sent (issue r t w) = sent w @ [r]"
  and issue_crashed [simp]: "crashed (issue r t w) = crashed w"
  and issue_next_form [simp]: "next_form (issue r t w) = next_form w"
  and issue_base_url [simp]: "base_url (issue r t w) = base_url w"
  by (simp_all add: issue_def)

lemma set_message_simps [simp]:
  "app (set_message m w) = (app w)\<lparr>message := m\<rparr>"
  "form (set_message m w) = form w"
  "pending (set_message m w) = pending w"
  "sent (set_message m w) = sent w"
  "crashed (set_message m w) = crashed w"
  "next_form (set_message m w) = next_form w"
  "base_url (set_message m w) = base_url w"
  by (simp_all add: set_message_def)

lemma set_route_simps [simp]:
  "route (app (set_route r w)) = r"
  "cart (app (set_route r w)) = cart (app w)"
  "products (app (set_route r w)) = products (app w)"
  "category (app (set_route r w)) = category (app w)"
  "loading (app (set_route r w)) = loading (app w)"
  "message (app (set_route r w)) = message (app w)"
  "pending (set_route r w) = pending w"
  "sent (set_route r w) = sent w"
  "crashed (set_route r w) = crashed w"
  "base_url (set_route r w) = base_url w"
  by (simp_all add: set_route_def)

end
