(* ===== verification/Catalog.thy ===== *)
theory Catalog
  imports Store
begin

text \<open>
  The catalog fetcher and the product grid of \<open>src/src/App.jsx\<close>: \<open>loadProducts\<close>
  split at its \<open>await\<close> into the part that runs when it is called and the
  continuation that runs when the reply arrives; the \<open>useEffect\<close> that calls it
  whenever \<open>category\<close> changes and the buttons that change \<open>category\<close>; the
  \<open>useMemo\<close> that filters the products by category; the grid that maps the
  filtered value to \<open>ProductCard\<close>s (\<open>src/src/components/ProductCard.jsx\<close>), each
  card as rendered; and the product record that a card hands to \<open>onAdd\<close>.
\<close>

subsection \<open>\<open>loadProducts\<close>\<close>

text \<open>\<open>if (cat && cat !== 'all') url.searchParams.set('category', cat)\<close>.\<close>

definition catalog_query :: "string option \<Rightarrow> string option" where
  "catalog_query cat =
     (case cat of None \<Rightarrow> None | Some c \<Rightarrow> if c \<noteq> [] \<and> c \<noteq> ''all'' then Some c else None)"

text \<open>
  \<open>new URL(s)\<close> without a base: the WHATWG parser first strips leading and trailing
  C0 controls and spaces, then removes every ASCII tab and newline (U+0009, U+000A,
  U+000D) wherever it occurs, and fails unless what remains starts with a scheme. A
  scheme is an ASCII letter, then letters, digits, \<open>+\<close>, \<open>-\<close> or \<open>.\<close>, ended by
  \<open>:\<close>. The trailing strip cannot change that answer (a scheme needs a \<open>:\<close> before
  any trailing character) and is left out. Of the parser's other failures (hosts that
  special schemes reject) none is modelled: a string with a scheme is taken as parsed.
\<close>

definition ascii_alpha :: "char \<Rightarrow> bool" where
  "ascii_alpha ch \<longleftrightarrow> (let n = (of_char ch :: nat) in (65 \<le> n \<and> n \<le> 90) \<or> (97 \<le> n \<and> n \<le> 122))"

definition scheme_char :: "char \<Rightarrow> bool" where
  "scheme_char ch \<longleftrightarrow>
     ascii_alpha ch \<or> (let n = (of_char ch :: nat) in 48 \<le> n \<and> n \<le> 57) \<or> ch \<in> set ''+-.''"

fun scheme_tail :: "string \<Rightarrow> bool" where
  "scheme_tail [] = False"
| "scheme_tail (ch # cs) = (ch = CHR '':'' \<or> (scheme_char ch \<and> scheme_tail cs))"

definition url_tab_newline :: "char \<Rightarrow> bool" where
  "url_tab_newline ch \<longleftrightarrow> ch = CHR 0x09 \<or> ch = CHR 0x0A \<or> ch = CHR 0x0D"

definition url_has_scheme :: "string \<Rightarrow> bool" where
  "url_has_scheme s =
     (case filter (\<lambda>ch. \<not> url_tab_newline ch) (dropWhile (\<lambda>ch. (of_char ch :: nat) \<le> 32) s) of
        [] \<Rightarrow> False
      | ch # cs \<Rightarrow> ascii_alpha ch \<and> scheme_tail cs)"

definition new_url :: "string \<Rightarrow> js_exn + string" where
  "new_url s = (if url_has_scheme s then Inr s else Inl (Type_error ''Failed to construct 'URL': Invalid URL''))"

lemma default_has_scheme: "url_has_scheme (default_backend @ ''/api/products'')"
  by code_simp

text \<open>
  \<open>setLoading(true)\<close>, then in the \<open>try\<close>: build the URL and call \<open>fetch\<close>. If
  \<open>new URL\<close> throws, the \<open>catch\<close> and the \<open>finally\<close> run at once, before any
  \<open>await\<close>, and the three updates are rendered together.
\<close>

definition load_products :: "string option \<Rightarrow> world \<Rightarrow> world" where
  "load_products cat w =
     (case new_url (base_url w @ ''/api/products'') of
        Inl e \<Rightarrow> w\<lparr>app := (app w)\<lparr>message := ''Unable to load products'', loading := False\<rparr>\<rparr>
      | Inr url \<Rightarrow> issue (Get_products (catalog_query cat)) Await_products (w\<lparr>app := (app w)\<lparr>loading := True\<rparr>\<rparr>))"

text \<open>
  The continuation: \<open>setProducts(data)\<close> once the body parses, whatever the status
  (there is no \<open>res.ok\<close> check); the fixed message when \<open>fetch\<close> or
  \<open>res.json()\<close> throws; \<open>setLoading(false)\<close> in \<open>finally\<close>.
\<close>

definition products_reply :: "reply \<Rightarrow> world \<Rightarrow> world" where
  "products_reply r w =
     (let w' = (case read_json r of
                  Inl e \<Rightarrow> set_message ''Unable to load products'' w
                | Inr (ok, data) \<Rightarrow> w\<lparr>app := (app w)\<lparr>products := data\<rparr>\<rparr>)
      in w'\<lparr>app := (app w')\<lparr>loading := False\<rparr>\<rparr>)"

subsection \<open>The category and its effect\<close>

text \<open>\<open>useEffect(() => loadProducts(category === 'all' ? undefined : category), [category])\<close>.\<close>

definition category_effect :: "string \<Rightarrow> world \<Rightarrow> world" where
  "category_effect c w = load_products (if c = ''all'' then None else Some c) w"

text \<open>
  A Collections button, \<open>setCategory(c)\<close>: the effect runs after the render only when
  the value changed.
\<close>

definition set_category :: "string \<Rightarrow> world \<Rightarrow> world" where
  "set_category c w =
     (if c = category (app w) then w
      else category_effect c (w\<lparr>app := (app w)\<lparr>category := c\<rparr>\<rparr>))"

text \<open>A Shop button of the home panel: \<open>setCategory(c); setRoute('catalog')\<close>, one render.\<close>

definition shop :: "string \<Rightarrow> world \<Rightarrow> world" where
  "shop c w =
     (let w' = set_route ''catalog'' (w\<lparr>app := (app w)\<lparr>category := c\<rparr>\<rparr>)
      in if c = category (app w) then w' else category_effect c w')"

subsection \<open>Filtering and the grid\<close>

text \<open>\<open>p.category === category\<close>, which reads a property of \<open>p\<close>.\<close>

definition category_matches :: "string \<Rightarrow> json \<Rightarrow> js_exn + bool" where
  "category_matches c p = exn_bind (js_get p ''category'') (\<lambda>v. Inr (v = Some (JStr c)))"

text \<open>
  The \<open>useMemo\<close>: \<open>products\<close> itself for \<open>'all'\<close>, otherwise
  \<open>products.filter(...)\<close>, which throws when \<open>products\<close> is not an array.
\<close>

definition filtered :: "string \<Rightarrow> json \<Rightarrow> js_exn + json" where
  "filtered c ps =
     (if c = ''all'' then Inr ps
      else case ps of
             JArr xs \<Rightarrow> exn_bind (filter_exn (category_matches c) xs) (\<lambda>ys. Inr (JArr ys))
           | _ \<Rightarrow> Inl (Type_error ''products.filter is not a function''))"

text \<open>
  \<open>filtered.map((p) => <ProductCard key={p._id} .../>)\<close>: a value that is not an
  array has no \<open>map\<close>, and a \<open>null\<close> element throws when its key is read.
\<close>

definition grid_items :: "json \<Rightarrow> js_exn + json list" where
  "grid_items f =
     (case f of
        JArr xs \<Rightarrow> if JNull \<in> set xs then Inl (null_read ''_id'') else Inr xs
      | _ \<Rightarrow> Inl (Type_error ''filtered.map is not a function''))"

datatype grid = Grid_loading | Grid_cards "json list"

text \<open>\<open>loading ? <p>Loading...</p> : filtered.map(...)\<close>; the memo is computed first.\<close>

definition product_grid :: "app_state \<Rightarrow> js_exn + grid" where
  "product_grid st =
     exn_bind (filtered (category st) (products st))
       (\<lambda>f. if loading st then Inr Grid_loading
            else exn_bind (grid_items f) (\<lambda>xs. Inr (Grid_cards xs)))"

subsection \<open>The card: \<open>ProductCard.jsx\<close>\<close>

text \<open>
  What a card shows: the image source when \<open>product.image\<close> is truthy (else the
  \<open>No Image\<close> placeholder, \<open>None\<close>), and the texts of the title, the category and
  the price. Strings are UTF-8 byte sequences. The price is prefixed by the bytes the
  source file holds before \<open>{product.price}\<close>: \<open>C3 A2 E2 80 9A C2 B9\<close>, which
  display as the three characters a-circumflex, low quote and superscript one. That
  is the rupee sign \<open>E2 82 B9\<close> decoded as Windows-1252 and encoded again.
\<close>

definition card_currency :: string where
  "card_currency = [CHR 0xC3, CHR 0xA2, CHR 0xE2, CHR 0x80, CHR 0x9A, CHR 0xC2, CHR 0xB9]"

record card =
  card_image :: "json option"
  card_title :: string
  card_category :: string
  card_price :: string

definition card_view :: "json \<Rightarrow> js_exn + card" where
  "card_view v =
     exn_bind (js_get v ''image'') (\<lambda>img.
     exn_bind (js_get v ''title'') (\<lambda>t.
     exn_bind (js_get v ''category'') (\<lambda>c.
     exn_bind (js_get v ''price'') (\<lambda>pr.
     exn_bind (jsx_child t) (\<lambda>ts.
     exn_bind (jsx_child c) (\<lambda>cs.
     exn_bind (jsx_child pr) (\<lambda>ps.
       Inr \<lparr>card_image = (if js_truthy img then img else None), card_title = ts,
            card_category = cs, card_price = card_currency @ ps\<rparr>)))))))"

text \<open>
  The grid as rendered: \<open>App\<close> maps the filtered value to card elements, reading each
  key; then every card renders.
\<close>

definition grid_view :: "json \<Rightarrow> js_exn + card list" where
  "grid_view f = exn_bind (grid_items f) (exn_map card_view)"

subsection \<open>The product a card passes to \<open>onAdd\<close>\<close>

definition str_member :: "json \<Rightarrow> string \<Rightarrow> string option" where
  "str_member v k = (case js_get v k of Inr (Some (JStr s)) \<Rightarrow> Some s | _ \<Rightarrow> None)"

definition num_member :: "json \<Rightarrow> string \<Rightarrow> int option" where
  "num_member v k = (case js_get v k of Inr (Some (JNum n)) \<Rightarrow> Some n | _ \<Rightarrow> None)"

text \<open>
  A card element read as the spec's product record: the fields \<open>onAdd\<close> copies and
  the category and image the card shows. Elements of another shape are outside the
  modelled product schema.
\<close>

definition product_of :: "json \<Rightarrow> product option" where
  "product_of v =
     (case (str_member v ''_id'', str_member v ''title'', str_member v ''category'', num_member v ''price'') of
        (Some i, Some t, Some c, Some n) \<Rightarrow>
          Some \<lparr>prod_id = i, prod_title = t, prod_category = c, prod_price = n,
                prod_image = str_member v ''image''\<rparr>
      | _ \<Rightarrow> None)"

text \<open>The same product written back as the backend's JSON object.\<close>

definition json_of_product :: "product \<Rightarrow> json" where
  "json_of_product p =
     JObj ([(''_id'', JStr (prod_id p)), (''title'', JStr (prod_title p)),
            (''category'', JStr (prod_category p)), (''price'', JNum (prod_price p))] @
           (case prod_image p of None \<Rightarrow> [] | Some s \<Rightarrow> [(''image'', JStr s)]))"

declare load_products_def [handler_defs] products_reply_def [handler_defs]
  set_category_def [handler_defs] shop_def [handler_defs] category_effect_def [handler_defs]

subsection \<open>Frame: the catalog handlers leave the cart alone\<close>

lemma catalog_cart [simp]:
  "cart (app (load_products cat w)) = cart (app w)"
  "cart (app (products_reply r w)) = cart (app w)"
  "cart (app (category_effect c w)) = cart (app w)"
  "cart (app (set_category c w)) = cart (app w)"
  "cart (app (shop c w)) = cart (app w)"
  by (simp_all add: handler_defs Let_def split: sum.split prod.split)

subsection \<open>Behaviour of the fetcher\<close>

text \<open>
  C14. When the backend URL parses, selecting a category different from the current one
  sets it, raises the loading flag and issues exactly one product request: with
  \<open>category=c\<close> for a proper tag, and without parameter for \<open>'all'\<close>.
\<close>

theorem category_request:
  assumes "url_has_scheme (base_url w @ ''/api/products'')" "c \<noteq> category (app w)"
  shows "sent (set_category c w) = sent w @ [Get_products (if c = ''all'' \<or> c = [] then None else Some c)] \<and>
         pending (set_category c w) = pending w @ [Await_products] \<and>
         category (app (set_category c w)) = c \<and> loading (app (set_category c w))"
  using assms by (simp add: set_category_def category_effect_def load_products_def catalog_query_def new_url_def)

text \<open>
  C15. A catalog load that fails in transport or decoding leaves the product list as it
  was, shows the fixed message, and clears the loading flag.
\<close>

theorem failed_load_keeps_products:
  assumes "isl (read_json r)"
  shows "products (app (products_reply r w)) = products (app w) \<and> \<not> loading (app (products_reply r w)) \<and>
         message (app (products_reply r w)) = ''Unable to load products''"
  using assms by (auto simp: products_reply_def isl_def split: sum.split)

text \<open>
  C19. The category filter of the \<open>useMemo\<close>, on a catalog of well-formed products,
  keeps exactly the products of the selected category in their order (all of them for
  \<open>'all'\<close>) and never throws.
\<close>

lemma category_matches_product:
  "category_matches c (json_of_product p) = Inr (prod_category p = c)"
  by (auto simp: category_matches_def json_of_product_def split: option.split)

theorem filtered_products:
  "filtered c (JArr (map json_of_product ps)) =
     Inr (JArr (map json_of_product (if c = ''all'' then ps else filter (\<lambda>p. prod_category p = c) ps)))"
proof (cases "c = ''all''")
  case True
  then show ?thesis by (simp add: filtered_def)
next
  case False
  have "filter_exn (category_matches c) (map json_of_product ps) =
          Inr (filter (\<lambda>x. category_matches c x = Inr True) (map json_of_product ps))"
    by (rule filter_exn_Inr) (auto simp: category_matches_product)
  with False show ?thesis
    by (simp add: filtered_def filter_map comp_def category_matches_product)
qed

subsection \<open>Witnesses\<close>

theorem category_request_witness:
  "url_has_scheme (default_backend @ ''/api/products'') \<and> ''silver'' \<noteq> category (app \<lparr>app = init_app, form = None, next_form = 0, pending = [], sent = [], crashed = False, base_url = default_backend\<rparr>) \<and>
   sent (set_category ''silver'' \<lparr>app = init_app, form = None, next_form = 0, pending = [], sent = [], crashed = False, base_url = default_backend\<rparr>) =
     [Get_products (Some ''silver'')]"
  using category_request [of "\<lparr>app = init_app, form = None, next_form = 0, pending = [], sent = [], crashed = False, base_url = default_backend\<rparr>" "''silver''"]
    default_has_scheme
  by (simp add: init_app_def)

theorem failed_load_keeps_products_witness:
  "isl (read_json (Rejected ''Failed to fetch'')) \<and>
   products (app (products_reply (Rejected ''Failed to fetch'')
     \<lparr>app = init_app\<lparr>products := JArr [JNull], loading := True\<rparr>, form = None, next_form = 0, pending = [], sent = [], crashed = False, base_url = default_backend\<rparr>)) =
     JArr [JNull]"
  using failed_load_keeps_products [of "Rejected ''Failed to fetch''"
      "\<lparr>app = init_app\<lparr>products := JArr [JNull], loading := True\<rparr>, form = None, next_form = 0, pending = [], sent = [], crashed = False, base_url = default_backend\<rparr>"]
  by simp

end
