(* ===== verification/Checkout.thy ===== *)
theory Checkout
  imports Store
begin

text \<open>
  The checkout orchestrator, \<open>checkout\<close> in \<open>src/src/App.jsx\<close> (lines 56-94), cut
  at its three \<open>await\<close>s on \<open>fetch\<close>: the part that runs on the click and one
  continuation per backend call. Each continuation runs its part of the \<open>try\<close> block
  as a computation that may throw; a throw ends in the \<open>catch\<close>, which puts the
  exception's message in the status slot and leaves the cart alone.
\<close>

definition order_item_of :: "cart_line \<Rightarrow> order_item" where
  "order_item_of i =
     \<lparr>product_id = line_id i, item_title = line_title i, item_price = line_price i, item_qty = qty i\<rparr>"

text \<open>On the click: nothing on an empty cart; else clear the message and post the order.\<close>

definition checkout :: "world \<Rightarrow> world" where
  "checkout w =
     (if cart (app w) = [] then w
      else issue (Post_order (map order_item_of (cart (app w))) ''Guest'' ''guest@example.com'')
             Await_order (set_message [] w))"

text \<open>\<open>catch (e) { setMessage(e.message) }\<close>.\<close>

definition checkout_failed :: "js_exn \<Rightarrow> world \<Rightarrow> world" where
  "checkout_failed e w = set_message (exn_message e) w"

text \<open>
  After \<open>POST /api/orders\<close>: read the body, throw on a failed status, read
  \<open>orderData.order_id\<close> and post the payment intent.
\<close>

definition order_step :: "reply \<Rightarrow> js_exn + json option" where
  "order_step r =
     exn_bind (read_json r) (\<lambda>(ok, d).
       exn_bind (check_ok ok d ''Failed to create order'') (\<lambda>_. js_get d ''order_id''))"

definition order_reply :: "reply \<Rightarrow> world \<Rightarrow> world" where
  "order_reply r w =
     (case order_step r of
        Inl e \<Rightarrow> checkout_failed e w
      | Inr oid \<Rightarrow> issue (Post_intent oid) (Await_intent oid) w)"

text \<open>
  After \<open>POST /api/payments/create-intent\<close>: read the body, throw on a failed status,
  show the reference, post the confirmation with \<open>success: true\<close>.
\<close>

definition intent_step :: "reply \<Rightarrow> js_exn + json option" where
  "intent_step r =
     exn_bind (read_json r) (\<lambda>(ok, d).
       exn_bind (check_ok ok d ''Failed to start payment'') (\<lambda>_. js_get d ''reference''))"

definition intent_reply :: "json option \<Rightarrow> reply \<Rightarrow> world \<Rightarrow> world" where
  "intent_reply oid r w =
     (case intent_step r of
        Inl e \<Rightarrow> checkout_failed e w
      | Inr ref \<Rightarrow>
          issue (Post_confirm oid True ref) (Await_confirm oid ref)
            (set_message (''Payment initiated. Reference: '' @ js_template ref) w))"

text \<open>
  After \<open>POST /api/payments/confirm\<close>: read the body, throw on a failed status, then
  the success message and \<open>setCart([])\<close>.
\<close>

definition confirm_step :: "reply \<Rightarrow> js_exn + unit" where
  "confirm_step r =
     exn_bind (read_json r) (\<lambda>(ok, d). check_ok ok d ''Payment confirmation failed'')"

definition success_message :: string where
  "success_message = ''Payment successful! Order confirmed.''"

definition confirm_reply :: "reply \<Rightarrow> world \<Rightarrow> world" where
  "confirm_reply r w =
     (case confirm_step r of
        Inl e \<Rightarrow> checkout_failed e w
      | Inr _ \<Rightarrow> w\<lparr>app := (app w)\<lparr>message := success_message, cart := []\<rparr>\<rparr>)"

declare checkout_def [handler_defs] order_reply_def [handler_defs]
  intent_reply_def [handler_defs] confirm_reply_def [handler_defs] checkout_failed_def [handler_defs]

subsection \<open>Frame: only a confirmed payment changes the cart\<close>

lemma checkout_cart [simp]:
  "cart (app (checkout w)) = cart (app w)"
  "cart (app (checkout_failed e w)) = cart (app w)"
  "cart (app (order_reply r w)) = cart (app w)"
  "cart (app (intent_reply oid r w)) = cart (app w)"
  by (simp_all add: handler_defs split: sum.split)

lemma confirm_reply_cart:
  "cart (app (confirm_reply r w)) = (if isl (confirm_step r) then cart (app w) else [])"
  by (simp add: confirm_reply_def checkout_failed_def split: sum.split)

subsection \<open>Behaviour of the orchestrator\<close>

text \<open>C6. Checkout on an empty cart performs no network call and changes nothing.\<close>

theorem checkout_empty_noop:
  assumes "cart (app w) = []"
  shows "checkout w = w"
  using assms by (simp add: checkout_def)

text \<open>
  C7. When all three backend calls succeed, in order, the requests carry the cart's
  items, then the returned order id, then that id with the returned reference and
  \<open>success: true\<close>; afterwards the cart is empty and the status is the fixed success
  message.
\<close>

theorem checkout_three_step_success:
  assumes "cart (app w) \<noteq> []"
  shows "let w1 = checkout w;
             w2 = order_reply (Reply True (Json (JObj [(''order_id'', oid)]))) w1;
             w3 = intent_reply (Some oid) (Reply True (Json (JObj [(''reference'', ref)]))) w2;
             w4 = confirm_reply (Reply True (Json d)) w3
         in cart (app w4) = [] \<and> message (app w4) = success_message \<and>
            sent w4 = sent w @ [Post_order (map order_item_of (cart (app w))) ''Guest'' ''guest@example.com'',
                                Post_intent (Some oid), Post_confirm (Some oid) True (Some ref)]"
  using assms
  by (simp add: checkout_def order_reply_def order_step_def intent_reply_def intent_step_def
      confirm_reply_def confirm_step_def)

text \<open>
  C8. If order creation fails with a non-empty detail string, the status is exactly that
  detail, the cart keeps its lines, and no further request is made.
\<close>

theorem order_failure_detail:
  assumes "js_get d ''detail'' = Inr (Some (JStr m))" "m \<noteq> []"
  shows "let w' = order_reply (Reply False (Json d)) w
         in message (app w') = m \<and> cart (app w') = cart (app w) \<and> sent w' = sent w \<and>
            pending w' = pending w"
proof -
  have "order_step (Reply False (Json d)) = Inl (Error m)"
    using check_ok_detail [OF assms] by (simp add: order_step_def)
  then show ?thesis by (simp add: order_reply_def checkout_failed_def)
qed

text \<open>
  C9. A failure without a usable detail (absent, \<open>null\<close>, empty) ends with the fixed
  fallback of the failing call and leaves cart and requests alone.
\<close>

theorem order_failure_fallback:
  assumes "js_get d ''detail'' = Inr v" "\<not> js_truthy v"
  shows "let w' = order_reply (Reply False (Json d)) w
         in message (app w') = ''Failed to create order'' \<and> cart (app w') = cart (app w) \<and>
            sent w' = sent w"
proof -
  have "order_step (Reply False (Json d)) = Inl (Error ''Failed to create order'')"
    using check_ok_fallback [OF assms] by (simp add: order_step_def)
  then show ?thesis by (simp add: order_reply_def checkout_failed_def)
qed

text \<open>
  C24. A reply whose body is \<open>null\<close> throws at the first property the continuation
  reads: \<open>detail\<close> after a failed status, otherwise \<open>order_id\<close> after the order
  and \<open>reference\<close> after the intent; the status slot shows the engine's
  \<open>TypeError\<close> text and no further request is made. The confirmation reads its body
  only on a failed status, so a successful confirmation with a \<open>null\<close> body still
  clears the cart and reports success.
\<close>

theorem null_body_replies:
  "order_reply (Reply ok (Json JNull)) w =
     checkout_failed (null_read (if ok then ''order_id'' else ''detail'')) w \<and>
   intent_reply oid (Reply ok (Json JNull)) w =
     checkout_failed (null_read (if ok then ''reference'' else ''detail'')) w \<and>
   confirm_reply (Reply ok (Json JNull)) w =
     (if ok then w\<lparr>app := (app w)\<lparr>message := success_message, cart := []\<rparr>\<rparr>
      else checkout_failed (null_read ''detail'') w)"
  by (cases ok) (simp_all add: order_reply_def order_step_def intent_reply_def intent_step_def
      confirm_reply_def confirm_step_def check_ok_def)



subsection \<open>Witnesses\<close>

definition demo_world :: world where
  "demo_world =
     \<lparr>app = init_app\<lparr>route := ''cart'', cart := [\<lparr>line_id = ''p1'', line_title = ''Ring'', line_price = 100, qty = 2\<rparr>]\<rparr>,
      form = None, next_form = 1, pending = [], sent = [], crashed = False, base_url = default_backend\<rparr>"

theorem checkout_empty_noop_witness:
  "cart (app (demo_world\<lparr>app := (app demo_world)\<lparr>cart := []\<rparr>\<rparr>)) = [] \<and>
   checkout (demo_world\<lparr>app := (app demo_world)\<lparr>cart := []\<rparr>\<rparr>) = demo_world\<lparr>app := (app demo_world)\<lparr>cart := []\<rparr>\<rparr>"
  using checkout_empty_noop [of "demo_world\<lparr>app := (app demo_world)\<lparr>cart := []\<rparr>\<rparr>"] by simp

theorem checkout_three_step_success_witness:
  "cart (app demo_world) \<noteq> [] \<and>
   (let w4 = confirm_reply (Reply True (Json (JObj [(''status'', JStr ''paid'')])))
               (intent_reply (Some (JStr ''o7'')) (Reply True (Json (JObj [(''reference'', JStr ''r9'')])))
                 (order_reply (Reply True (Json (JObj [(''order_id'', JStr ''o7'')]))) (checkout demo_world)))
    in cart (app w4) = [] \<and> message (app w4) = ''Payment successful! Order confirmed.'' \<and>
       sent w4 = [Post_order [\<lparr>product_id = ''p1'', item_title = ''Ring'', item_price = 100, item_qty = 2\<rparr>]
                    ''Guest'' ''guest@example.com'',
                  Post_intent (Some (JStr ''o7'')), Post_confirm (Some (JStr ''o7'')) True (Some (JStr ''r9''))])"
proof -
  have ne: "cart (app demo_world) \<noteq> []" by (simp add: demo_world_def)
  show ?thesis
    using checkout_three_step_success [OF ne, of "JStr ''o7''" "JStr ''r9''" "JObj [(''status'', JStr ''paid'')]"]
    by (simp add: demo_world_def success_message_def order_item_of_def Let_def)
qed

theorem order_failure_detail_witness:
  "js_get (JObj [(''detail'', JStr ''Out of stock'')]) ''detail'' = Inr (Some (JStr ''Out of stock'')) \<and>
   ''Out of stock'' \<noteq> [] \<and>
   message (app (order_reply (Reply False (Json (JObj [(''detail'', JStr ''Out of stock'')]))) demo_world)) = ''Out of stock'' \<and>
   cart (app (order_reply (Reply False (Json (JObj [(''detail'', JStr ''Out of stock'')]))) demo_world)) =
     [\<lparr>line_id = ''p1'', line_title = ''Ring'', line_price = 100, qty = 2\<rparr>]"
  using order_failure_detail [of "JObj [(''detail'', JStr ''Out of stock'')]" "''Out of stock''" demo_world]
  by (simp add: demo_world_def Let_def)

theorem order_failure_fallback_witness:
  "js_get (JObj [(''detail'', JStr [])]) ''detail'' = Inr (Some (JStr [])) \<and> \<not> js_truthy (Some (JStr [])) \<and>
   message (app (order_reply (Reply False (Json (JObj [(''detail'', JStr [])]))) demo_world)) = ''Failed to create order''"
  using order_failure_fallback [of "JObj [(''detail'', JStr [])]" "Some (JStr [])" demo_world]
  by (simp add: Let_def)


end
