(* ===== verification/Inquiry.thy ===== *)
theory Inquiry
  imports Store
begin

text \<open>
  The inquiry submitter, \<open>src/src/components/ContactForm.jsx\<close>, acting on the
  mounted form instance of the world: \<open>handleChange\<close>, \<open>handleSubmit\<close> up to its
  \<open>await\<close>, and the continuation, which updates the instance that sent the request
  (a no-op when that instance has been unmounted) and calls the parent's
  \<open>onSubmitted\<close>, \<open>setMessage('We have received your message.')\<close>, on success.
\<close>

definition handle_change :: "form_field \<Rightarrow> string \<Rightarrow> world \<Rightarrow> world" where
  "handle_change fld v w =
     (case form w of
        None \<Rightarrow> w
      | Some (i, f) \<Rightarrow> w\<lparr>form := Some (i, f\<lparr>entries := set_field fld v (entries f)\<rparr>)\<rparr>)"

definition handle_submit :: "world \<Rightarrow> world" where
  "handle_submit w =
     (case form w of
        None \<Rightarrow> w
      | Some (i, f) \<Rightarrow>
          issue (Post_inquiry (entries f)) (Await_inquiry i) (w\<lparr>form := Some (i, start_submit f)\<rparr>))"

definition received_message :: string where
  "received_message = ''We have received your message.''"

definition inquiry_reply :: "nat \<Rightarrow> reply \<Rightarrow> world \<Rightarrow> world" where
  "inquiry_reply i r w =
     (let ok = inquiry_ok r;
          w' = (case form w of
                  Some (j, f) \<Rightarrow> if j = i then w\<lparr>form := Some (j, finish_submit ok f)\<rparr> else w
                | None \<Rightarrow> w)
      in if ok then set_message received_message w' else w')"

declare handle_change_def [handler_defs] handle_submit_def [handler_defs]
  inquiry_reply_def [handler_defs]

subsection \<open>Frame: the contact form never touches the cart\<close>

lemma inquiry_cart [simp]:
  "cart (app (handle_change fld v w)) = cart (app w)"
  "cart (app (handle_submit w)) = cart (app w)"
  "cart (app (inquiry_reply i r w)) = cart (app w)"
  by (simp_all add: handler_defs Let_def split: option.split prod.split)

subsection \<open>Behaviour of the submitter\<close>

text \<open>
  C20. When the inquiry succeeds and the form that sent it is still mounted, its four
  fields are cleared, the thank-you status shown and the busy flag dropped, and the page
  shows the received message.
\<close>

theorem inquiry_success_clears:
  assumes "form w = Some (i, f)" "inquiry_ok r"
  shows "form (inquiry_reply i r w) = Some (i, f\<lparr>status := Some thanks_status, entries := empty_form, busy := False\<rparr>) \<and>
         message (app (inquiry_reply i r w)) = received_message"
  using assms by (simp add: inquiry_reply_def finish_submit_def)

text \<open>
  C21. When the inquiry fails (a status outside 200-299 or a rejected request), the
  fields stay as typed, the retry status is shown, the busy flag dropped, and the page
  state is untouched.
\<close>

theorem inquiry_failure_keeps_fields:
  assumes "form w = Some (i, f)" "\<not> inquiry_ok r"
  shows "form (inquiry_reply i r w) = Some (i, f\<lparr>status := Some retry_status, busy := False\<rparr>) \<and>
         app (inquiry_reply i r w) = app w"
  using assms by (simp add: inquiry_reply_def finish_submit_def)

subsection \<open>Witnesses\<close>

definition typed_form :: contact_form where
  "typed_form = \<lparr>entries = \<lparr>fname = ''Asha'', femail = ''asha@example.com'', fphone = [], fmessage = ''Ring sizes?''\<rparr>,
     busy = True, status = None\<rparr>"

theorem inquiry_success_clears_witness:
  "form \<lparr>app = init_app, form = Some (0, typed_form), next_form = 1, pending = [], sent = [], crashed = False, base_url = default_backend\<rparr> = Some (0, typed_form) \<and>
   inquiry_ok (Reply True (Json JNull)) \<and>
   form (inquiry_reply 0 (Reply True (Json JNull))
     \<lparr>app = init_app, form = Some (0, typed_form), next_form = 1, pending = [], sent = [], crashed = False, base_url = default_backend\<rparr>) =
     Some (0, \<lparr>entries = empty_form, busy = False, status = Some ''Thanks! We will reach out shortly.''\<rparr>)"
  using inquiry_success_clears [of "\<lparr>app = init_app, form = Some (0, typed_form), next_form = 1, pending = [], sent = [], crashed = False, base_url = default_backend\<rparr>"
      0 typed_form "Reply True (Json JNull)"]
  by (simp add: typed_form_def thanks_status_def)

theorem inquiry_failure_keeps_fields_witness:
  "form \<lparr>app = init_app, form = Some (0, typed_form), next_form = 1, pending = [], sent = [], crashed = False, base_url = default_backend\<rparr> = Some (0, typed_form) \<and>
   \<not> inquiry_ok (Reply False (Json JNull)) \<and>
   map_option (entries \<circ> snd) (form (inquiry_reply 0 (Reply False (Json JNull))
     \<lparr>app = init_app, form = Some (0, typed_form), next_form = 1, pending = [], sent = [], crashed = False, base_url = default_backend\<rparr>)) =
     Some \<lparr>fname = ''Asha'', femail = ''asha@example.com'', fphone = [], fmessage = ''Ring sizes?''\<rparr>"
  using inquiry_failure_keeps_fields [of "\<lparr>app = init_app, form = Some (0, typed_form), next_form = 1, pending = [], sent = [], crashed = False, base_url = default_backend\<rparr>"
      0 typed_form "Reply False (Json JNull)"]
  by (simp add: typed_form_def)

end
