(* ===== verification/App.thy ===== *)
theory App
  imports Catalog Checkout Inquiry
begin

text \<open>
  The page as a whole: the events a user can cause in the rendered UI (the buttons of
  \<open>Navbar.jsx\<close>, of the home panel, of \<open>ProductCard.jsx\<close> and \<open>Cart.jsx\<close>, the
  inputs and submit of \<open>ContactForm.jsx\<close>) and the arrival of the reply to any request
  in flight, which resumes the suspended handler. Each event is enabled only where the
  UI offers it; \<open>step\<close> runs its handler and then renders. A render that throws
  (no error boundary exists) leaves a blank page on which no UI event is enabled any
  more. The requests still in flight are answered there, and their continuations run
  on. \<open>reachable\<close> collects the worlds that some interleaving of events produces from
  the first render, under any backend base URL.
\<close>

subsection \<open>What is rendered\<close>

datatype panel = Home_panel | Catalog_panel | Contact_panel | Cart_panel

text \<open>The four \<open>route === ...\<close> blocks of \<open>main\<close>; any other route renders none.\<close>

definition panel :: "string \<Rightarrow> panel option" where
  "panel r =
     (if r = ''home'' then Some Home_panel
      else if r = ''catalog'' then Some Catalog_panel
      else if r = ''contact'' then Some Contact_panel
      else if r = ''cart'' then Some Cart_panel
      else None)"

definition shows_grid :: "string \<Rightarrow> bool" where
  "shows_grid r \<longleftrightarrow> r = ''home'' \<or> r = ''catalog''"

text \<open>
  Rendering \<open>App\<close> succeeds when the memo does not throw and, where the grid is shown
  and not replaced by the loading text, mapping the filtered value to cards and
  rendering each card does not.
\<close>

definition renders :: "app_state \<Rightarrow> bool" where
  "renders st =
     (case filtered (category st) (products st) of
        Inl e \<Rightarrow> False
      | Inr f \<Rightarrow> (shows_grid (route st) \<and> \<not> loading st \<longrightarrow> \<not> isl (grid_view f)))"

text \<open>The cards on screen, in order.\<close>

definition shown_products :: "app_state \<Rightarrow> json list" where
  "shown_products st =
     (if shows_grid (route st) then (case product_grid st of Inr (Grid_cards xs) \<Rightarrow> xs | _ \<Rightarrow> [])
      else [])"

text \<open>\<open>cartCount={cart.length}\<close>: the badge counts lines, not units.\<close>

definition cart_badge :: "app_state \<Rightarrow> nat" where
  "cart_badge st = length (cart st)"

text \<open>\<open>category.charAt(0).toUpperCase() + category.slice(1)\<close>, for ASCII letters.\<close>

definition ascii_upper :: "char \<Rightarrow> char" where
  "ascii_upper ch =
     (let n = (of_char ch :: nat) in if 97 \<le> n \<and> n \<le> 122 then char_of (n - 32) else ch)"

definition catalog_title :: "string \<Rightarrow> string" where
  "catalog_title c =
     (if c = ''all'' then ''All Products''
      else case c of [] \<Rightarrow> [] | ch # rest \<Rightarrow> ascii_upper ch # rest)"

subsection \<open>Events\<close>

datatype event =
    Navigate string  \<comment> \<open>a button of \<open>Navbar\<close>: \<open>onNavigate(r)\<close>\<close>
  | Shop string  \<comment> \<open>Shop Silver / Shop Oxidised on the home panel\<close>
  | Pick_category string  \<comment> \<open>All / Silver / Oxidised on the home panel\<close>
  | Add_to_cart nat  \<comment> \<open>Add to Cart on the n-th card shown\<close>
  | Remove nat  \<comment> \<open>Remove on the n-th cart line\<close>
  | Checkout  \<comment> \<open>the Checkout button of \<open>Cart\<close>\<close>
  | Edit form_field string  \<comment> \<open>typing into a field of the contact form\<close>
  | Submit  \<comment> \<open>submitting the contact form\<close>
  | Deliver nat reply  \<comment> \<open>the reply to the n-th request in flight arrives\<close>

text \<open>The arguments \<open>Navbar\<close> passes to \<open>onNavigate\<close>, i.e.\ \<open>setRoute\<close>.\<close>

definition nav_targets :: "string list" where
  "nav_targets = [''home'', ''silver'', ''oxidised'', ''contact'', ''cart'']"

text \<open>Resuming the handler suspended at a task with the reply.\<close>

fun dispatch :: "task \<Rightarrow> reply \<Rightarrow> world \<Rightarrow> world" where
  "dispatch Await_products r w = products_reply r w"
| "dispatch Await_order r w = order_reply r w"
| "dispatch (Await_intent oid) r w = intent_reply oid r w"
| "dispatch (Await_confirm oid ref) r w = confirm_reply r w"
| "dispatch (Await_inquiry i) r w = inquiry_reply i r w"

definition deliver :: "nat \<Rightarrow> reply \<Rightarrow> world \<Rightarrow> world option" where
  "deliver k r w =
     (if k < length (pending w)
      then Some (dispatch (pending w ! k) r (w\<lparr>pending := take k (pending w) @ drop (Suc k) (pending w)\<rparr>))
      else None)"

definition set_cart :: "(cart \<Rightarrow> cart) \<Rightarrow> world \<Rightarrow> world" where
  "set_cart f w = w\<lparr>app := (app w)\<lparr>cart := f (cart (app w))\<rparr>\<rparr>"

fun step_event :: "world \<Rightarrow> event \<Rightarrow> world option" where
  "step_event w (Navigate r) = (if r \<in> set nav_targets then Some (set_route r w) else None)"
| "step_event w (Shop c) =
     (if route (app w) = ''home'' \<and> (c = ''silver'' \<or> c = ''oxidised'') then Some (shop c w) else None)"
| "step_event w (Pick_category c) =
     (if route (app w) = ''home'' \<and> (c = ''all'' \<or> c = ''silver'' \<or> c = ''oxidised'')
      then Some (set_category c w) else None)"
| "step_event w (Add_to_cart k) =
     (if k < length (shown_products (app w))
      then map_option (\<lambda>p. set_cart (on_add p) w) (product_of (shown_products (app w) ! k))
      else None)"
| "step_event w (Remove k) =
     (if route (app w) = ''cart'' \<and> k < length (cart (app w)) then Some (set_cart (remove_item k) w) else None)"
| "step_event w Checkout =
     (if route (app w) = ''cart'' \<and> cart (app w) \<noteq> [] then Some (checkout w) else None)"
| "step_event w (Edit fld v) = (if form w \<noteq> None then Some (handle_change fld v w) else None)"
| "step_event w Submit =
     (case form w of Some (i, f) \<Rightarrow> if submit_enabled f then Some (handle_submit w) else None | None \<Rightarrow> None)"
| "step_event w (Deliver k r) = deliver k r w"

text \<open>
  After a render error React unmounts the whole tree: nothing is shown and no UI event
  can fire, and the \<open>setState\<close> calls of the continuations still running are
  ignored. Those continuations do run when their replies arrive, and the requests
  they issue are sent. \<open>deliver_unmounted\<close> keeps only that effect of a reply.
\<close>

definition deliver_unmounted :: "nat \<Rightarrow> reply \<Rightarrow> world \<Rightarrow> world option" where
  "deliver_unmounted k r w = map_option (\<lambda>w'. w\<lparr>pending := pending w', sent := sent w'\<rparr>) (deliver k r w)"

definition step :: "world \<Rightarrow> event \<Rightarrow> world option" where
  "step w e =
     (if crashed w then (case e of Deliver k r \<Rightarrow> deliver_unmounted k r w | _ \<Rightarrow> None)
      else map_option (\<lambda>w'. w'\<lparr>crashed := \<not> renders (app w')\<rparr>) (step_event w e))"

fun run :: "world \<Rightarrow> event list \<Rightarrow> world option" where
  "run w [] = Some w"
| "run w (e # es) = (case step w e of None \<Rightarrow> None | Some w' \<Rightarrow> run w' es)"

text \<open>
  The first render with the initial state under the base URL \<open>b\<close>: the contact form
  of the home panel mounted, and the effect run once for the initial category.
  \<open>init_world\<close> is the page with \<open>VITE_BACKEND_URL\<close> unset.
\<close>

definition init_for :: "string \<Rightarrow> world" where
  "init_for b =
     category_effect (category init_app)
       \<lparr>app = init_app, form = Some (0, init_contact_form), next_form = 1, pending = [],
        sent = [], crashed = False, base_url = b\<rparr>"

definition init_world :: world where
  "init_world = init_for (backend_base None)"

inductive reachable :: "world \<Rightarrow> bool" where
  init: "reachable (init_for b)"
| step: "reachable w \<Longrightarrow> step w e = Some w' \<Longrightarrow> reachable w'"

lemma reachable_init_world: "reachable init_world"
  unfolding init_world_def by (rule reachable.init)

lemma run_reachable: "reachable w \<Longrightarrow> run w es = Some w' \<Longrightarrow> reachable w'"
proof (induction es arbitrary: w)
  case Nil
  then show ?case by simp
next
  case (Cons e es)
  then obtain w1 where "step w e = Some w1" "run w1 es = Some w'"
    by (auto split: option.splits)
  with Cons show ?case by (blast intro: reachable.step)
qed

lemma step_SomeE:
  assumes "step w e = Some w'"
  obtains (live) z where "\<not> crashed w" "step_event w e = Some z" "w' = z\<lparr>crashed := \<not> renders (app z)\<rparr>"
    | (unmounted) k r z where "crashed w" "e = Deliver k r" "deliver k r w = Some z"
        "w' = w\<lparr>pending := pending z, sent := sent z\<rparr>"
  using assms by (cases e) (auto simp: step_def deliver_unmounted_def split: if_splits)

lemma crashed_idle: "crashed w \<Longrightarrow> pending w = [] \<Longrightarrow> step w e = None"
  by (cases e) (simp_all add: step_def deliver_unmounted_def deliver_def)

lemma step_crashed_mono: "step w e = Some w' \<Longrightarrow> crashed w \<Longrightarrow> crashed w'"
  by (erule step_SomeE) simp_all

text \<open>Reading a property of the end state of a concrete run.\<close>

lemma run_case_Some: "run w0 es = Some w \<Longrightarrow> P w \<Longrightarrow> (case run w0 es of None \<Rightarrow> False | Some w' \<Rightarrow> P w')"
  by simp

subsection \<open>The cart invariant\<close>

lemma dispatch_cart: "cart (app (dispatch t r w)) = cart (app w) \<or> cart (app (dispatch t r w)) = []"
  by (cases t) (simp_all add: confirm_reply_cart)

lemma step_event_cart_wf:
  assumes "step_event w e = Some w'" "cart_wf (cart (app w))"
  shows "cart_wf (cart (app w'))"
proof (cases e)
  case (Add_to_cart k)
  with assms show ?thesis by (auto simp: set_cart_def on_add_wf split: if_splits)
next
  case (Remove k)
  with assms show ?thesis by (auto simp: set_cart_def remove_item_wf split: if_splits)
next
  case (Deliver k r)
  let ?w0 = "w\<lparr>pending := take k (pending w) @ drop (Suc k) (pending w)\<rparr>"
  from assms(1) Deliver have w': "w' = dispatch (pending w ! k) r ?w0"
    by (simp add: deliver_def split: if_splits)
  have "cart (app w') = cart (app ?w0) \<or> cart (app w') = []"
    unfolding w' by (rule dispatch_cart)
  with assms(2) show ?thesis by auto
next
  case Submit
  with assms show ?thesis by (auto split: option.splits if_splits)
qed (use assms in \<open>auto split: if_splits\<close>)

lemma step_cart_wf: "step w e = Some w' \<Longrightarrow> cart_wf (cart (app w)) \<Longrightarrow> cart_wf (cart (app w'))"
  by (erule step_SomeE) (auto dest: step_event_cart_wf)

text \<open>
  C1. In every state the page can reach, the cart has at most one line per product and
  every line a positive quantity.
\<close>

theorem reachable_cart_wf: "reachable w \<Longrightarrow> cart_wf (cart (app w))"
proof (induction rule: reachable.induct)
  case init
  show ?case by (simp add: init_for_def init_app_def)
next
  case (step w e w')
  from step.hyps(2) step.IH show ?case by (rule step_cart_wf)
qed

subsection \<open>Witnesses\<close>

text \<open>A catalog of two products, as the backend would send it.\<close>

definition demo_catalog :: json where
  "demo_catalog =
     JArr [JObj [(''_id'', JStr ''p1''), (''title'', JStr ''Ring''), (''category'', JStr ''silver''), (''price'', JNum 100)],
           JObj [(''_id'', JStr ''p2''), (''title'', JStr ''Anklet''), (''category'', JStr ''oxidised''), (''price'', JNum 250)]]"

theorem reachable_cart_wf_witness:
  "case run init_world [Deliver 0 (Reply True (Json demo_catalog)), Add_to_cart 0, Add_to_cart 1, Add_to_cart 0] of
     None \<Rightarrow> False
   | Some w \<Rightarrow> reachable w \<and> cart_wf (cart (app w)) \<and> length (cart (app w)) = 2"
proof -
  define es where "es = [Deliver 0 (Reply True (Json demo_catalog)), Add_to_cart 0, Add_to_cart 1, Add_to_cart 0]"
  have ev: "map_option (\<lambda>w. length (cart (app w))) (run init_world es) = Some 2"
    unfolding es_def demo_catalog_def by code_simp
  then obtain w where r: "run init_world es = Some w" and len: "length (cart (app w)) = 2"
    by (cases "run init_world es") auto
  have "reachable w" using reachable_init_world r by (rule run_reachable)
  then have "cart_wf (cart (app w))" by (rule reachable_cart_wf)
  with r len \<open>reachable w\<close> show ?thesis unfolding es_def by simp
qed

end
