(* ===== verification/Protocol.thy ===== *)
theory Protocol
  imports App
begin

text \<open>
  The request sequence of the checkout orchestrator over whole runs. Checkout posts an
  order, a payment intent, and a confirmation. Each call is issued only from the
  continuation of the one before. However requests and replies of other components
  interleave, and however many checkouts run at once, the page never sends more
  intents than orders or more confirmations than intents. Every confirmation says
  \<open>success: true\<close> and names an order id that was sent in an intent before it.
  The invariant is stated on the projection of a world to the checkout's requests and
  to its continuations that still wait for an order or an intent reply.
\<close>

fun is_order :: "request \<Rightarrow> bool" where
  "is_order (Post_order _ _ _) = True"
| "is_order _ = False"

fun is_intent :: "request \<Rightarrow> bool" where
  "is_intent (Post_intent _) = True"
| "is_intent _ = False"

fun is_confirm :: "request \<Rightarrow> bool" where
  "is_confirm (Post_confirm _ _ _) = True"
| "is_confirm _ = False"

fun waits_order :: "task \<Rightarrow> bool" where
  "waits_order Await_order = True"
| "waits_order _ = False"

fun waits_intent :: "task \<Rightarrow> bool" where
  "waits_intent (Await_intent _) = True"
| "waits_intent _ = False"

definition proto_req :: "request \<Rightarrow> bool" where
  "proto_req r \<longleftrightarrow> is_order r \<or> is_intent r \<or> is_confirm r"

definition proto_task :: "task \<Rightarrow> bool" where
  "proto_task t \<longleftrightarrow> waits_order t \<or> waits_intent t"

definition proto_ok :: "request list \<Rightarrow> task list \<Rightarrow> bool" where
  "proto_ok S P \<longleftrightarrow>
     length (filter is_intent S) + length (filter waits_order P) \<le> length (filter is_order S) \<and>
     length (filter is_confirm S) + length (filter waits_intent P) \<le> length (filter is_intent S) \<and>
     (\<forall>oi s r. Post_confirm oi s r \<in> set S \<longrightarrow> s \<and> Post_intent oi \<in> set S) \<and>
     (\<forall>oi. Await_intent oi \<in> set P \<longrightarrow> Post_intent oi \<in> set S)"

definition proto_inv :: "world \<Rightarrow> bool" where
  "proto_inv w \<longleftrightarrow> proto_ok (filter proto_req (sent w)) (filter proto_task (pending w))"

lemmas proto_simps = proto_req_def proto_task_def proto_inv_def

subsection \<open>The invariant on the projected lists\<close>

lemma proto_ok_Nil: "proto_ok [] []"
  by (simp add: proto_ok_def)

lemma proto_ok_checkout:
  "proto_ok S P \<Longrightarrow> proto_ok (S @ [Post_order items n e]) (P @ [Await_order])"
  by (auto simp: proto_ok_def)

lemma proto_ok_order_done:
  "proto_ok S (A @ Await_order # B) \<Longrightarrow> proto_ok (S @ [Post_intent oid]) (A @ B @ [Await_intent oid])"
  by (auto simp: proto_ok_def)

lemma proto_ok_order_failed:
  "proto_ok S (A @ Await_order # B) \<Longrightarrow> proto_ok S (A @ B)"
  by (auto simp: proto_ok_def)

lemma proto_ok_intent_done:
  "proto_ok S (A @ Await_intent oid # B) \<Longrightarrow> proto_ok (S @ [Post_confirm oid True ref]) (A @ B)"
  by (auto simp: proto_ok_def)

lemma proto_ok_intent_failed:
  "proto_ok S (A @ Await_intent oid # B) \<Longrightarrow> proto_ok S (A @ B)"
  by (auto simp: proto_ok_def)

subsection \<open>Handlers outside the checkout do not touch the projection\<close>

lemma proto_frame [simp]:
  "filter proto_req (sent (load_products c w)) = filter proto_req (sent w)"
  "filter proto_task (pending (load_products c w)) = filter proto_task (pending w)"
  "sent (products_reply r w) = sent w" "pending (products_reply r w) = pending w"
  "sent (set_route x w) = sent w" "pending (set_route x w) = pending w"
  "sent (confirm_reply r w) = sent w" "pending (confirm_reply r w) = pending w"
  "sent (handle_change fld v w) = sent w" "pending (handle_change fld v w) = pending w"
  "filter proto_req (sent (handle_submit w)) = filter proto_req (sent w)"
  "filter proto_task (pending (handle_submit w)) = filter proto_task (pending w)"
  "sent (inquiry_reply i r w) = sent w" "pending (inquiry_reply i r w) = pending w"
  by (simp_all add: handler_defs proto_simps Let_def split: sum.split prod.split option.split)

lemma proto_frame_catalog [simp]:
  "filter proto_req (sent (set_category c w)) = filter proto_req (sent w)"
  "filter proto_task (pending (set_category c w)) = filter proto_task (pending w)"
  "filter proto_req (sent (shop c w)) = filter proto_req (sent w)"
  "filter proto_task (pending (shop c w)) = filter proto_task (pending w)"
  by (simp_all add: set_category_def shop_def category_effect_def Let_def)

lemma proto_inv_checkout: "proto_inv w \<Longrightarrow> proto_inv (checkout w)"
  by (auto simp: checkout_def proto_simps intro: proto_ok_checkout [simplified])

text \<open>Removing the \<open>k\<close>-th continuation splits the projected list around it.\<close>

lemma filter_remove_nth:
  assumes "k < length xs"
  shows "filter f xs = filter f (take k xs) @ (if f (xs ! k) then [xs ! k] else []) @ filter f (drop (Suc k) xs)"
proof -
  have "filter f xs = filter f (take k xs @ xs ! k # drop (Suc k) xs)"
    by (rule arg_cong [where f = "filter f", OF id_take_nth_drop [OF assms]])
  then show ?thesis by simp
qed

subsection \<open>Every step keeps the invariant\<close>

lemma proto_inv_deliver:
  assumes inv: "proto_inv w" and k: "k < length (pending w)"
  shows "proto_inv (dispatch (pending w ! k) r (w\<lparr>pending := take k (pending w) @ drop (Suc k) (pending w)\<rparr>))"
proof -
  let ?P = "pending w" and ?S = "filter proto_req (sent w)"
  let ?A = "filter proto_task (take k ?P)" and ?B = "filter proto_task (drop (Suc k) ?P)"
  have "filter proto_task ?P = ?A @ (if proto_task (?P ! k) then [?P ! k] else []) @ ?B"
    using k by (rule filter_remove_nth)
  with inv have ok: "proto_ok ?S (?A @ (if proto_task (?P ! k) then [?P ! k] else []) @ ?B)"
    by (simp add: proto_inv_def)
  show ?thesis
  proof (cases "?P ! k")
    case Await_products
    with ok show ?thesis by (simp add: proto_simps)
  next
    case Await_order
    with ok have ok': "proto_ok ?S (?A @ Await_order # ?B)" by (simp add: proto_task_def)
    show ?thesis
    proof (cases "order_step r")
      case Inl
      with Await_order proto_ok_order_failed [OF ok'] show ?thesis
        by (simp add: order_reply_def checkout_failed_def proto_inv_def)
    next
      case (Inr oid)
      with Await_order proto_ok_order_done [OF ok', of oid] show ?thesis
        by (simp add: order_reply_def proto_simps)
    qed
  next
    case (Await_intent oid)
    with ok have ok': "proto_ok ?S (?A @ Await_intent oid # ?B)" by (simp add: proto_task_def)
    show ?thesis
    proof (cases "intent_step r")
      case Inl
      with Await_intent proto_ok_intent_failed [OF ok'] show ?thesis
        by (simp add: intent_reply_def checkout_failed_def proto_inv_def)
    next
      case (Inr ref)
      with Await_intent proto_ok_intent_done [OF ok', of ref] show ?thesis
        by (simp add: intent_reply_def proto_simps)
    qed
  next
    case (Await_confirm oid ref)
    with ok show ?thesis by (simp add: proto_simps)
  next
    case (Await_inquiry i)
    with ok show ?thesis by (simp add: proto_simps)
  qed
qed

lemma proto_inv_step_event:
  assumes "step_event w e = Some w'" "proto_inv w"
  shows "proto_inv w'"
proof (cases e)
  case Checkout
  with assms show ?thesis by (auto split: if_splits intro: proto_inv_checkout)
next
  case (Deliver k r)
  with assms show ?thesis by (auto simp: deliver_def split: if_splits intro: proto_inv_deliver)
next
  case (Add_to_cart k)
  with assms show ?thesis by (auto simp: set_cart_def proto_inv_def split: if_splits)
next
  case (Remove k)
  with assms show ?thesis by (auto simp: set_cart_def proto_inv_def split: if_splits)
next
  case Submit
  with assms show ?thesis by (auto simp: proto_inv_def split: option.splits if_splits)
qed (use assms in \<open>auto simp: proto_inv_def split: if_splits\<close>)

lemma proto_inv_reachable: "reachable w \<Longrightarrow> proto_inv w"
proof (induction rule: reachable.induct)
  case init
  show ?case
    by (simp add: init_for_def category_effect_def load_products_def proto_simps proto_ok_Nil split: sum.split)
next
  case (step w e w')
  from step.hyps(2) show ?case
  proof (cases rule: step_SomeE)
    case (live z)
    from live(2) step.IH have "proto_inv z" by (rule proto_inv_step_event)
    with live(3) show ?thesis by (simp add: proto_inv_def)
  next
    case (unmounted k r z)
    from unmounted(3) have "step_event w (Deliver k r) = Some z" by simp
    from this step.IH have "proto_inv z" by (rule proto_inv_step_event)
    with unmounted(4) show ?thesis by (simp add: proto_inv_def)
  qed
qed

lemma filter_proto_req_gen: "(\<And>x. P x \<Longrightarrow> proto_req x) \<Longrightarrow> filter P (filter proto_req S) = filter P S"
  by (induction S) auto

lemma filter_proto_req:
  "filter is_order (filter proto_req S) = filter is_order S"
  "filter is_intent (filter proto_req S) = filter is_intent S"
  "filter is_confirm (filter proto_req S) = filter is_confirm S"
  by (rule filter_proto_req_gen, simp add: proto_req_def)+

text \<open>
  C10. In every reachable state: no more payment intents have been posted than orders,
  no more confirmations than intents, and every confirmation carries
  \<open>success: true\<close> and an order id posted in an intent before.
\<close>

theorem checkout_protocol:
  assumes "reachable w"
  shows "length (filter is_confirm (sent w)) \<le> length (filter is_intent (sent w)) \<and>
         length (filter is_intent (sent w)) \<le> length (filter is_order (sent w)) \<and>
         (\<forall>oi s r. Post_confirm oi s r \<in> set (sent w) \<longrightarrow> s \<and> Post_intent oi \<in> set (sent w))"
proof -
  from assms have "proto_inv w" by (rule proto_inv_reachable)
  then have ok: "proto_ok (filter proto_req (sent w)) (filter proto_task (pending w))"
    by (simp add: proto_inv_def)
  then show ?thesis
    unfolding proto_ok_def filter_proto_req by (auto simp: proto_req_def)
qed

theorem checkout_protocol_witness:
  "case run init_world [Deliver 0 (Reply True (Json demo_catalog)), Add_to_cart 0, Navigate ''cart'', Checkout,
                        Deliver 0 (Reply True (Json (JObj [(''order_id'', JStr ''o7'')]))),
                        Deliver 0 (Reply True (Json (JObj [(''reference'', JStr ''r9'')])))] of
     None \<Rightarrow> False
   | Some w \<Rightarrow> reachable w \<and> Post_confirm (Some (JStr ''o7'')) True (Some (JStr ''r9'')) \<in> set (sent w) \<and>
       length (filter is_confirm (sent w)) \<le> length (filter is_intent (sent w)) \<and>
       length (filter is_intent (sent w)) \<le> length (filter is_order (sent w)) \<and>
       (\<forall>oi s r. Post_confirm oi s r \<in> set (sent w) \<longrightarrow> s \<and> Post_intent oi \<in> set (sent w))"
proof -
  define es where "es = [Deliver 0 (Reply True (Json demo_catalog)), Add_to_cart 0, Navigate ''cart'', Checkout,
                        Deliver 0 (Reply True (Json (JObj [(''order_id'', JStr ''o7'')]))),
                        Deliver 0 (Reply True (Json (JObj [(''reference'', JStr ''r9'')])))]"
  have ev: "map_option (\<lambda>w. Post_confirm (Some (JStr ''o7'')) True (Some (JStr ''r9'')) \<in> set (sent w)) (run init_world es) = Some True"
    unfolding es_def demo_catalog_def by code_simp
  then obtain w where r: "run init_world es = Some w"
      and c: "Post_confirm (Some (JStr ''o7'')) True (Some (JStr ''r9'')) \<in> set (sent w)"
    by (cases "run init_world es") auto
  have "reachable w" using reachable_init_world r by (rule run_reachable)
  have "case run init_world es of None \<Rightarrow> False
        | Some w \<Rightarrow> reachable w \<and> Post_confirm (Some (JStr ''o7'')) True (Some (JStr ''r9'')) \<in> set (sent w) \<and>
            length (filter is_confirm (sent w)) \<le> length (filter is_intent (sent w)) \<and>
            length (filter is_intent (sent w)) \<le> length (filter is_order (sent w)) \<and>
            (\<forall>oi s r. Post_confirm oi s r \<in> set (sent w) \<longrightarrow> s \<and> Post_intent oi \<in> set (sent w))"
    using \<open>reachable w\<close> c checkout_protocol [OF \<open>reachable w\<close>] by (intro run_case_Some [OF r]) blast
  then show ?thesis by (simp only: es_def)
qed

end
