(* ===== verification/Settle.thy ===== *)
theory Settle
  imports App
begin

text \<open>
  Progress of the page's asynchronous work. Every continuation waiting in
  \<open>pending\<close> resumes at most once, and the checkout chains at most two more
  requests behind its first. So the replies alone cannot keep the page busy forever.
  \<open>work\<close> counts the replies still to come: three for a checkout waiting for its
  order, two for one waiting for its intent, one for every other continuation. Every
  delivered reply lowers it. Conversely, whatever else is going on, a checkout in
  flight completes after its three replies, on a live page and on a blank one.
\<close>

subsection \<open>Outstanding work\<close>

fun task_weight :: "task \<Rightarrow> nat" where
  "task_weight Await_order = 3"
| "task_weight (Await_intent oid) = 2"
| "task_weight (Await_confirm oid ref) = 1"
| "task_weight Await_products = 1"
| "task_weight (Await_inquiry i) = 1"

definition work :: "world \<Rightarrow> nat" where
  "work w = sum_list (map task_weight (pending w))"

fun is_deliver :: "event \<Rightarrow> bool" where
  "is_deliver (Deliver k r) = True"
| "is_deliver _ = False"

definition ok_reply :: "(string \<times> json) list \<Rightarrow> reply" where
  "ok_reply kvs = Reply True (Json (JObj kvs))"

lemma task_weight_pos: "0 < task_weight t"
  by (cases t) simp_all

lemma sum_list_remove_nth:
  "k < length xs \<Longrightarrow>
     sum_list (map f (take k xs @ drop (Suc k) xs)) + f (xs ! k) = sum_list (map (f :: 'a \<Rightarrow> nat) xs)"
proof -
  assume k: "k < length xs"
  have "sum_list (map f xs) = sum_list (map f (take k xs @ xs ! k # drop (Suc k) xs))"
    using arg_cong [OF id_take_nth_drop [OF k], of "\<lambda>ys. sum_list (map f ys)"] .
  then show ?thesis by simp
qed

text \<open>A resumed continuation adds less work than it removes.\<close>

lemma dispatch_pending:
  "\<exists>new. pending (dispatch t r w) = pending w @ new \<and> sum_list (map task_weight new) < task_weight t"
proof (cases t)
  case Await_products
  then show ?thesis by (simp add: products_reply_def Let_def split: sum.split prod.split)
next
  case Await_order
  then show ?thesis by (auto simp: order_reply_def checkout_failed_def split: sum.split)
next
  case (Await_intent oid)
  then show ?thesis by (auto simp: intent_reply_def checkout_failed_def split: sum.split)
next
  case (Await_confirm oid ref)
  then show ?thesis by (simp add: confirm_reply_def checkout_failed_def split: sum.split)
next
  case (Await_inquiry i)
  then show ?thesis by (simp add: inquiry_reply_def Let_def split: option.split prod.split)
qed

lemma step_Deliver:
  "\<not> crashed w \<Longrightarrow> k < length (pending w) \<Longrightarrow>
     step w (Deliver k r) =
       Some ((dispatch (pending w ! k) r (w\<lparr>pending := take k (pending w) @ drop (Suc k) (pending w)\<rparr>))
               \<lparr>crashed := \<not> renders (app (dispatch (pending w ! k) r
                              (w\<lparr>pending := take k (pending w) @ drop (Suc k) (pending w)\<rparr>)))\<rparr>)"
  by (simp add: step_def deliver_def)

lemma step_Deliver_None: "step w (Deliver k r) = None \<longleftrightarrow> length (pending w) \<le> k"
  by (auto simp: step_def deliver_def deliver_unmounted_def)

text \<open>On a live page and on a blank one alike, a reply resumes its continuation.\<close>

lemma step_Deliver_lists:
  assumes "step w (Deliver k r) = Some w'"
  shows "k < length (pending w) \<and>
         pending w' = pending (dispatch (pending w ! k) r (w\<lparr>pending := take k (pending w) @ drop (Suc k) (pending w)\<rparr>))"
  using assms by (auto simp: step_def deliver_def deliver_unmounted_def split: if_splits)

lemma step_deliver_work:
  assumes "step w (Deliver k r) = Some w'"
  shows "work w' < work w"
proof -
  let ?w0 = "w\<lparr>pending := take k (pending w) @ drop (Suc k) (pending w)\<rparr>"
  from step_Deliver_lists [OF assms] have k: "k < length (pending w)"
    and p: "pending w' = pending (dispatch (pending w ! k) r ?w0)" by simp_all
  obtain new where new: "pending (dispatch (pending w ! k) r ?w0) = pending ?w0 @ new"
    and less: "sum_list (map task_weight new) < task_weight (pending w ! k)"
    using dispatch_pending by blast
  have "pending w' = pending ?w0 @ new" using p new by simp
  then show ?thesis
    using less sum_list_remove_nth [OF k, of task_weight] by (simp add: work_def)
qed

subsection \<open>Rendering survives a reply that only changes the message or the cart\<close>

lemma reachable_renders: "reachable w \<Longrightarrow> \<not> crashed w \<Longrightarrow> renders (app w)"
proof (induction rule: reachable.induct)
  case init
  show ?case
    by (simp add: init_for_def category_effect_def load_products_def init_app_def renders_def filtered_def
        grid_view_def grid_items_def split: sum.split)
next
  case (step w e w')
  from step.hyps(2) show ?case
  proof (cases rule: step_SomeE)
    case live
    with step.prems show ?thesis by simp
  next
    case unmounted
    with step.prems show ?thesis by simp
  qed
qed

lemma renders_message_cart [simp]:
  "renders (st\<lparr>message := m\<rparr>) = renders st"
  "renders (st\<lparr>message := m, cart := c\<rparr>) = renders st"
  by (simp_all add: renders_def split: sum.split)

subsection \<open>The three replies of a successful checkout\<close>

lemma remove_nth_last: "take (length xs) (xs @ [x]) @ drop (Suc (length xs)) (xs @ [x]) = xs"
  by simp

text \<open>
  Each reply acts the same on a live page and a blank one as far as requests go. On a
  live page the updates to the message and the cart keep the page rendering.
\<close>

lemma order_accepted_step:
  assumes "crashed w \<or> renders (app w)" "k < length (pending w)" "pending w ! k = Await_order"
  shows "\<exists>w'. step w (Deliver k (ok_reply [(''order_id'', v)])) = Some w' \<and>
           pending w' = (take k (pending w) @ drop (Suc k) (pending w)) @ [Await_intent (Some v)] \<and>
           sent w' = sent w @ [Post_intent (Some v)] \<and> crashed w' = crashed w \<and>
           (crashed w' \<or> renders (app w'))"
  using assms by (auto simp: step_def deliver_def deliver_unmounted_def ok_reply_def order_reply_def order_step_def)

lemma intent_created_step:
  assumes "crashed w \<or> renders (app w)" "k < length (pending w)" "pending w ! k = Await_intent oid"
  shows "\<exists>w'. step w (Deliver k (ok_reply [(''reference'', v)])) = Some w' \<and>
           pending w' = (take k (pending w) @ drop (Suc k) (pending w)) @ [Await_confirm oid (Some v)] \<and>
           sent w' = sent w @ [Post_confirm oid True (Some v)] \<and> crashed w' = crashed w \<and>
           (crashed w' \<or> renders (app w'))"
  using assms by (auto simp: step_def deliver_def deliver_unmounted_def ok_reply_def intent_reply_def intent_step_def)

lemma payment_confirmed_step:
  assumes "crashed w \<or> renders (app w)" "k < length (pending w)" "pending w ! k = Await_confirm oid ref"
  shows "\<exists>w'. step w (Deliver k (ok_reply [])) = Some w' \<and> sent w' = sent w \<and> crashed w' = crashed w \<and>
           (\<not> crashed w \<longrightarrow> cart (app w') = [] \<and> message (app w') = success_message)"
  using assms by (auto simp: step_def deliver_def deliver_unmounted_def ok_reply_def confirm_reply_def confirm_step_def)

text \<open>The three replies of a successful checkout, one after the other.\<close>

lemma checkout_replies:
  assumes "crashed w \<or> renders (app w)" "k < length (pending w)" "pending w ! k = Await_order"
  shows "\<exists>w'. run w [Deliver k (ok_reply [(''order_id'', v)]),
                       Deliver (length (pending w) - 1) (ok_reply [(''reference'', u)]),
                       Deliver (length (pending w) - 1) (ok_reply [])] = Some w' \<and>
           crashed w' = crashed w \<and> sent w' = sent w @ [Post_intent (Some v), Post_confirm (Some v) True (Some u)] \<and>
           (\<not> crashed w \<longrightarrow> cart (app w') = [] \<and> message (app w') = success_message)"
proof -
  let ?P = "take k (pending w) @ drop (Suc k) (pending w)"
  have n: "length (pending w) - 1 = length ?P" using assms(2) by simp
  obtain w1 where s1: "step w (Deliver k (ok_reply [(''order_id'', v)])) = Some w1"
    and p1: "pending w1 = ?P @ [Await_intent (Some v)]" and t1: "sent w1 = sent w @ [Post_intent (Some v)]"
    and c1: "crashed w1 = crashed w" and r1: "crashed w1 \<or> renders (app w1)"
    using order_accepted_step [OF assms] by blast
  have k1: "length ?P < length (pending w1)" unfolding p1 by simp
  have a1: "pending w1 ! length ?P = Await_intent (Some v)" unfolding p1 by (rule nth_append_length)
  have P1: "take (length ?P) (pending w1) @ drop (Suc (length ?P)) (pending w1) = ?P"
    unfolding p1 by (rule remove_nth_last)
  obtain w2 where s2: "step w1 (Deliver (length ?P) (ok_reply [(''reference'', u)])) = Some w2"
    and p2': "pending w2 = (take (length ?P) (pending w1) @ drop (Suc (length ?P)) (pending w1)) @
                [Await_confirm (Some v) (Some u)]"
    and t2: "sent w2 = sent w1 @ [Post_confirm (Some v) True (Some u)]"
    and c2: "crashed w2 = crashed w1" and r2: "crashed w2 \<or> renders (app w2)"
    using intent_created_step [OF r1 k1 a1] by blast
  have p2: "pending w2 = ?P @ [Await_confirm (Some v) (Some u)]" using p2' unfolding P1 .
  have k2: "length ?P < length (pending w2)" unfolding p2 by simp
  have a2: "pending w2 ! length ?P = Await_confirm (Some v) (Some u)" unfolding p2 by (rule nth_append_length)
  obtain w3 where s3: "step w2 (Deliver (length ?P) (ok_reply [])) = Some w3"
    and t3: "sent w3 = sent w2" and c3: "crashed w3 = crashed w2"
    and o3: "\<not> crashed w2 \<longrightarrow> cart (app w3) = [] \<and> message (app w3) = success_message"
    using payment_confirmed_step [OF r2 k2 a2] by blast
  show ?thesis unfolding n using s1 s2 s3 t1 t2 t3 c1 c2 c3 o3 by simp
qed

subsection \<open>Termination and progress\<close>

text \<open>
  C12. Replies alone cannot keep the page busy: a run made only of deliveries has at
  most \<open>work w\<close> steps, and each one consumes at least one unit of the work that was
  outstanding at its start.
\<close>

theorem deliveries_bounded:
  "run w es = Some w' \<Longrightarrow> list_all is_deliver es \<Longrightarrow> length es + work w' \<le> work w"
proof (induction es arbitrary: w)
  case Nil
  then show ?case by simp
next
  case (Cons e es)
  then obtain k r where e: "e = Deliver k r" by (cases e) simp_all
  from Cons.prems obtain w1 where s: "step w e = Some w1" and r: "run w1 es = Some w'"
    by (auto split: option.splits)
  have "work w1 < work w" using s unfolding e by (rule step_deliver_work)
  moreover have "length es + work w' \<le> work w1" using Cons.IH [OF r] Cons.prems(2) by simp
  ultimately show ?case by simp
qed

text \<open>
  C11. A checkout in flight completes: from any state the page can reach with a live
  page and a checkout waiting for its order reply, the three successful replies (the
  order accepted, the intent created, the payment confirmed), delivered whatever
  other requests are in flight, post the intent and the confirmation, empty the cart
  and show the success message. The cart is emptied whatever it holds by then: lines
  added while the checkout was in flight are dropped, and no order is posted for them.
\<close>

theorem checkout_can_complete:
  assumes "reachable w" "\<not> crashed w" "k < length (pending w)" "pending w ! k = Await_order"
  shows "\<exists>w'. run w [Deliver k (ok_reply [(''order_id'', v)]),
                     Deliver (length (pending w) - 1) (ok_reply [(''reference'', u)]),
                     Deliver (length (pending w) - 1) (ok_reply [])] = Some w' \<and>
           \<not> crashed w' \<and> cart (app w') = [] \<and> message (app w') = success_message \<and>
           sent w' = sent w @ [Post_intent (Some v), Post_confirm (Some v) True (Some u)]"
proof -
  have "renders (app w)" using assms(1,2) by (rule reachable_renders)
  then have "crashed w \<or> renders (app w)" ..
  from checkout_replies [OF this assms(3,4), of v u] assms(2) show ?thesis by auto
qed

text \<open>
  C26. A blank page still pays: when rendering has failed while a checkout waits for its
  order reply, nothing is shown any more, yet the continuation runs on. Once the backend
  accepts the order it posts the payment intent, and then the confirmation with
  \<open>success: true\<close>.
\<close>

theorem payment_after_blank_page:
  assumes "crashed w" "k < length (pending w)" "pending w ! k = Await_order"
  shows "\<exists>es w'. run w es = Some w' \<and> crashed w' \<and>
           sent w' = sent w @ [Post_intent (Some v), Post_confirm (Some v) True (Some u)]"
proof -
  from assms(1) have "crashed w \<or> renders (app w)" ..
  from checkout_replies [OF this assms(2,3), of v u] obtain w' es where r: "run w es = Some w'"
    and c: "crashed w' = crashed w"
    and t: "sent w' = sent w @ [Post_intent (Some v), Post_confirm (Some v) True (Some u)]"
    by blast
  from c assms(1) have "crashed w'" by simp
  with r t show ?thesis by blast
qed

subsection \<open>Witnesses\<close>

theorem deliveries_bounded_witness:
  "case run init_world [Deliver 0 (Reply True (Json demo_catalog))] of
     None \<Rightarrow> False
   | Some w' \<Rightarrow> list_all is_deliver [Deliver 0 (Reply True (Json demo_catalog))] \<and>
       length [Deliver 0 (Reply True (Json demo_catalog))] + work w' \<le> work init_world \<and> work init_world = 1"
proof -
  define es where "es = [Deliver 0 (Reply True (Json demo_catalog))]"
  have ev: "map_option work (run init_world es) = Some 0" and w0: "work init_world = 1"
    unfolding es_def demo_catalog_def by code_simp+
  then obtain w' where r: "run init_world es = Some w'" by (cases "run init_world es") auto
  have d: "list_all is_deliver es" unfolding es_def by simp
  from deliveries_bounded [OF r d] r d w0 show ?thesis unfolding es_def by simp
qed

theorem checkout_can_complete_witness:
  "case run init_world [Deliver 0 (Reply True (Json demo_catalog)), Add_to_cart 0, Navigate ''cart'', Checkout,
                        Navigate ''home'', Add_to_cart 1] of
     None \<Rightarrow> False
   | Some w \<Rightarrow> reachable w \<and> \<not> crashed w \<and> 0 < length (pending w) \<and> pending w ! 0 = Await_order \<and>
       map line_id (cart (app w)) = [''p1'', ''p2''] \<and>
       sent w = [Get_products None,
                 Post_order [\<lparr>product_id = ''p1'', item_title = ''Ring'', item_price = 100, item_qty = 1\<rparr>]
                   ''Guest'' ''guest@example.com''] \<and>
       (\<exists>w'. run w [Deliver 0 (ok_reply [(''order_id'', JStr ''o7'')]),
                     Deliver (length (pending w) - 1) (ok_reply [(''reference'', JStr ''r9'')]),
                     Deliver (length (pending w) - 1) (ok_reply [])] = Some w' \<and>
           \<not> crashed w' \<and> cart (app w') = [] \<and> message (app w') = success_message \<and>
           sent w' = sent w @ [Post_intent (Some (JStr ''o7'')), Post_confirm (Some (JStr ''o7'')) True (Some (JStr ''r9''))])"
proof -
  define es where "es = [Deliver 0 (Reply True (Json demo_catalog)), Add_to_cart 0, Navigate ''cart'', Checkout,
                        Navigate ''home'', Add_to_cart 1]"
  have ev: "map_option (\<lambda>w. (crashed w, pending w, map line_id (cart (app w)), sent w)) (run init_world es) =
              Some (False, [Await_order], [''p1'', ''p2''],
                    [Get_products None,
                     Post_order [\<lparr>product_id = ''p1'', item_title = ''Ring'', item_price = 100, item_qty = 1\<rparr>]
                       ''Guest'' ''guest@example.com''])"
    unfolding es_def demo_catalog_def by code_simp
  then obtain w where r: "run init_world es = Some w" and c: "\<not> crashed w"
    and p: "pending w = [Await_order]" and l: "map line_id (cart (app w)) = [''p1'', ''p2'']"
    and t: "sent w = [Get_products None,
                      Post_order [\<lparr>product_id = ''p1'', item_title = ''Ring'', item_price = 100, item_qty = 1\<rparr>]
                        ''Guest'' ''guest@example.com'']"
    by (cases "run init_world es") auto
  have reach: "reachable w" using reachable_init_world r by (rule run_reachable)
  have k: "0 < length (pending w)" and o: "pending w ! 0 = Await_order" using p by simp_all
  from checkout_can_complete [OF reach c k o, of "JStr ''o7''" "JStr ''r9''"] reach c k o l t r
  show ?thesis unfolding es_def by simp
qed

theorem payment_after_blank_page_witness:
  "case run init_world [Deliver 0 (Reply True (Json demo_catalog)), Add_to_cart 0, Navigate ''cart'', Checkout,
                        Navigate ''home'', Pick_category ''silver'',
                        Deliver 1 (Reply False (Json (JObj [(''detail'', JStr ''Internal Server Error'')])))] of
     None \<Rightarrow> False
   | Some w \<Rightarrow> crashed w \<and> 0 < length (pending w) \<and> pending w ! 0 = Await_order \<and>
       (\<exists>es w'. run w es = Some w' \<and> crashed w' \<and>
          sent w' = sent w @ [Post_intent (Some (JStr ''o7'')), Post_confirm (Some (JStr ''o7'')) True (Some (JStr ''r9''))])"
proof -
  define es where "es = [Deliver 0 (Reply True (Json demo_catalog)), Add_to_cart 0, Navigate ''cart'', Checkout,
                        Navigate ''home'', Pick_category ''silver'',
                        Deliver 1 (Reply False (Json (JObj [(''detail'', JStr ''Internal Server Error'')])))]"
  have ev: "map_option (\<lambda>w. (crashed w, pending w)) (run init_world es) = Some (True, [Await_order])"
    unfolding es_def demo_catalog_def by code_simp
  then obtain w where r: "run init_world es = Some w" and c: "crashed w" and p: "pending w = [Await_order]"
    by (cases "run init_world es") auto
  have k: "0 < length (pending w)" and t: "pending w ! 0 = Await_order" using p by simp_all
  from payment_after_blank_page [OF c k t, of "JStr ''o7''" "JStr ''r9''"] c k t r
  show ?thesis unfolding es_def by simp
qed

end
