(* ===== verification/Runs.thy ===== *)
theory Runs
  imports App
begin

text \<open>
  Invariants over whole runs for the two components whose flags guard an in-flight
  request. The catalog's \<open>loading\<close> flag is raised only while a product request is
  still unanswered. A contact form's \<open>busy\<close> flag is raised exactly while its own
  inquiry is unanswered. Every event and every order of replies keeps both. Under a
  backend URL without a scheme, no run requests the catalog or raises the loading flag.
\<close>

subsection \<open>Frame lemmas: who touches \<open>loading\<close> and the continuations\<close>

lemma loading_frame [simp]:
  "loading (app (checkout w)) = loading (app w)"
  "loading (app (order_reply r w)) = loading (app w)"
  "loading (app (intent_reply oid r w)) = loading (app w)"
  "loading (app (confirm_reply r w)) = loading (app w)"
  "loading (app (handle_change fld v w)) = loading (app w)"
  "loading (app (handle_submit w)) = loading (app w)"
  "loading (app (inquiry_reply i r w)) = loading (app w)"
  "loading (app (set_cart g w)) = loading (app w)"
  by (simp_all add: handler_defs set_cart_def Let_def split: sum.split option.split prod.split)

lemma pending_grows:
  "set (pending w) \<subseteq> set (pending (checkout w))"
  "set (pending w) \<subseteq> set (pending (order_reply r w))"
  "set (pending w) \<subseteq> set (pending (intent_reply oid r w))"
  "set (pending w) \<subseteq> set (pending (confirm_reply r w))"
  "set (pending w) \<subseteq> set (pending (handle_change fld v w))"
  "set (pending w) \<subseteq> set (pending (handle_submit w))"
  "set (pending w) \<subseteq> set (pending (inquiry_reply i r w))"
  "set (pending w) \<subseteq> set (pending (set_cart g w))"
  by (auto simp: handler_defs set_cart_def Let_def split: sum.split option.split prod.split)

subsection \<open>The loading flag\<close>

definition loading_inv :: "world \<Rightarrow> bool" where
  "loading_inv w \<longleftrightarrow> (loading (app w) \<longrightarrow> Await_products \<in> set (pending w))"

lemma loading_inv_frame:
  "loading_inv w \<Longrightarrow> loading (app w') = loading (app w) \<Longrightarrow> set (pending w) \<subseteq> set (pending w') \<Longrightarrow> loading_inv w'"
  by (auto simp: loading_inv_def)

lemma loading_inv_catalog:
  "loading_inv (load_products cat w)"
  "loading_inv (products_reply r w)"
  "loading_inv w \<Longrightarrow> loading_inv (set_route x w)"
  "loading_inv w \<Longrightarrow> loading_inv (set_category c w)"
  "loading_inv w \<Longrightarrow> loading_inv (shop c w)"
  by (auto simp: loading_inv_def load_products_def products_reply_def set_category_def shop_def
      category_effect_def Let_def split: sum.split prod.split)

lemma loading_inv_other:
  assumes "loading_inv w"
  shows "loading_inv (checkout w)" "loading_inv (handle_change fld v w)"
    "loading_inv (handle_submit w)" "loading_inv (set_cart g w)"
  by (rule loading_inv_frame [OF assms]; simp add: pending_grows)+

lemma loading_inv_deliver:
  assumes inv: "loading_inv w" and k: "k < length (pending w)"
  shows "loading_inv (dispatch (pending w ! k) r (w\<lparr>pending := take k (pending w) @ drop (Suc k) (pending w)\<rparr>))"
    (is "loading_inv (dispatch ?t r ?w0)")
proof (cases "?t = Await_products")
  case True
  then show ?thesis by (simp add: loading_inv_catalog)
next
  case False
  have "loading (app w) \<Longrightarrow> Await_products \<in> set (take k (pending w) @ drop (Suc k) (pending w))"
    using inv False k by (intro in_set_remove_nth) (simp_all add: loading_inv_def)
  then have "loading_inv ?w0" by (simp add: loading_inv_def)
  moreover have "loading (app (dispatch ?t r ?w0)) = loading (app ?w0)"
    using False by (cases ?t) simp_all
  moreover have "set (pending ?w0) \<subseteq> set (pending (dispatch ?t r ?w0))"
    using False by (cases ?t) (simp_all only: dispatch.simps pending_grows simp_thms)
  ultimately show ?thesis by (rule loading_inv_frame)
qed

lemma loading_inv_step_event:
  assumes "step_event w e = Some w'" "loading_inv w"
  shows "loading_inv w'"
proof (cases e)
  case (Deliver k r)
  with assms show ?thesis by (auto simp: deliver_def split: if_splits intro: loading_inv_deliver)
next
  case Submit
  with assms show ?thesis by (auto split: option.splits if_splits intro: loading_inv_other)
qed (use assms in \<open>auto split: if_splits intro: loading_inv_catalog loading_inv_other\<close>)

text \<open>
  The flags live in the state of mounted components: the invariants are about live
  pages. A crash never heals, so the live states reached are reached through live
  states only.
\<close>

lemma loading_inv_reachable: "reachable w \<Longrightarrow> \<not> crashed w \<Longrightarrow> loading_inv w"
proof (induction rule: reachable.induct)
  case init
  show ?case by (simp add: init_for_def category_effect_def loading_inv_catalog)
next
  case (step w e w')
  from step.hyps(2) show ?case
  proof (cases rule: step_SomeE)
    case (live z)
    from live(2) step.IH [OF live(1)] have "loading_inv z" by (rule loading_inv_step_event)
    with live(3) show ?thesis by (simp add: loading_inv_def)
  next
    case unmounted
    with step.prems show ?thesis by simp
  qed
qed

text \<open>
  C16. In every reachable state of a live page, while the catalog shows "Loading..." a product request
  is still unanswered.
\<close>

theorem loading_implies_load_pending:
  assumes "reachable w" "\<not> crashed w" "loading (app w)"
  shows "Await_products \<in> set (pending w)"
  using loading_inv_reachable [OF assms(1,2)] assms(3) by (simp add: loading_inv_def)

theorem loading_implies_load_pending_witness:
  "reachable init_world \<and> \<not> crashed init_world \<and> loading (app init_world) \<and>
   Await_products \<in> set (pending init_world)"
proof -
  have l: "loading (app init_world)" and c: "\<not> crashed init_world"
    by (simp_all add: init_world_def init_for_def backend_base_def category_effect_def load_products_def
        new_url_def default_has_scheme)
  show ?thesis using loading_implies_load_pending [OF reachable_init_world c l] l c reachable_init_world by blast
qed

subsection \<open>The busy flag of the contact form\<close>

fun inquiry_of :: "task \<Rightarrow> nat option" where
  "inquiry_of (Await_inquiry i) = Some i"
| "inquiry_of _ = None"

text \<open>The form instances whose inquiry is unanswered, one entry per request.\<close>

definition inq_ids :: "task list \<Rightarrow> nat list" where
  "inq_ids P = List.map_filter inquiry_of P"

lemma inq_ids_simps [simp]:
  "inq_ids [] = []"
  "inq_ids (P @ Q) = inq_ids P @ inq_ids Q"
  "inq_ids (t # P) = (case inquiry_of t of None \<Rightarrow> inq_ids P | Some i \<Rightarrow> i # inq_ids P)"
  by (simp_all add: inq_ids_def map_filter_def split: option.split)

lemma in_inq_ids: "i \<in> set (inq_ids P) \<longleftrightarrow> Await_inquiry i \<in> set P"
proof (induction P)
  case (Cons t P)
  then show ?case by (cases t) auto
qed simp

definition inq_inv :: "world \<Rightarrow> bool" where
  "inq_inv w \<longleftrightarrow>
     (\<forall>j \<in> set (inq_ids (pending w)). j < next_form w) \<and>
     (case form w of
        None \<Rightarrow> True
      | Some (i, f) \<Rightarrow> i < next_form w \<and> count_list (inq_ids (pending w)) i = (if busy f then 1 else 0))"

lemma inq_inv_frame:
  assumes "inq_inv w" "form w' = form w" "next_form w' = next_form w"
    "inq_ids (pending w') = inq_ids (pending w)"
  shows "inq_inv w'"
  using assms(1) unfolding inq_inv_def assms(2,3,4) .

lemma inq_inv_app: "inq_inv w \<Longrightarrow> inq_inv (w\<lparr>app := a\<rparr>)"
  by (erule inq_inv_frame) simp_all

lemma inq_frame [simp]:
  "inq_ids (pending (load_products cat w)) = inq_ids (pending w)"
  "inq_ids (pending (products_reply r w)) = inq_ids (pending w)"
  "inq_ids (pending (checkout w)) = inq_ids (pending w)"
  "inq_ids (pending (order_reply r w)) = inq_ids (pending w)"
  "inq_ids (pending (intent_reply oid r w)) = inq_ids (pending w)"
  "inq_ids (pending (confirm_reply r w)) = inq_ids (pending w)"
  "form (load_products cat w) = form w" "next_form (load_products cat w) = next_form w"
  "form (products_reply r w) = form w" "next_form (products_reply r w) = next_form w"
  "form (checkout w) = form w" "next_form (checkout w) = next_form w"
  "form (order_reply r w) = form w" "next_form (order_reply r w) = next_form w"
  "form (intent_reply oid r w) = form w" "next_form (intent_reply oid r w) = next_form w"
  "form (confirm_reply r w) = form w" "next_form (confirm_reply r w) = next_form w"
  by (simp_all add: handler_defs Let_def split: sum.split prod.split)

lemma inq_inv_route: "inq_inv w \<Longrightarrow> inq_inv (set_route x w)"
proof -
  assume inv: "inq_inv w"
  have "count_list (inq_ids (pending w)) (next_form w) = 0"
    using inv by (auto simp: inq_inv_def count_list_0_iff)
  with inv show ?thesis
    by (auto simp: inq_inv_def set_route_def init_contact_form_def less_Suc_eq)
qed

lemma inq_inv_load: "inq_inv w \<Longrightarrow> inq_inv (load_products cat w)"
  by (erule inq_inv_frame) simp_all

lemma inq_inv_catalog:
  "inq_inv w \<Longrightarrow> inq_inv (set_category c w)"
  "inq_inv w \<Longrightarrow> inq_inv (shop c w)"
  unfolding set_category_def shop_def category_effect_def Let_def
  by (auto intro!: inq_inv_load inq_inv_route inq_inv_app)

lemma inq_inv_form_handlers:
  "inq_inv w \<Longrightarrow> inq_inv (handle_change fld v w)"
  "inq_inv w \<Longrightarrow> form w = Some (i, f) \<Longrightarrow> submit_enabled f \<Longrightarrow> inq_inv (handle_submit w)"
  by (auto simp: inq_inv_def handle_change_def handle_submit_def start_submit_def submit_enabled_def
      count_list_0_iff split: option.splits)

lemma inq_ids_remove_nth:
  assumes "k < length P"
  shows "inq_ids P = inq_ids (take k P) @ (case inquiry_of (P ! k) of None \<Rightarrow> [] | Some j \<Rightarrow> [j]) @ inq_ids (drop (Suc k) P)"
proof -
  have "inq_ids P = inq_ids (take k P @ P ! k # drop (Suc k) P)"
    by (rule arg_cong [where f = inq_ids, OF id_take_nth_drop [OF assms]])
  then show ?thesis by (simp split: option.split)
qed

lemma inq_inv_reply:
  assumes inv: "inq_inv w" and ids: "inq_ids (pending w) = A @ j # B"
    and w0: "inq_ids (pending w0) = A @ B" "form w0 = form w" "next_form w0 = next_form w"
  shows "inq_inv (inquiry_reply j r w0)"
proof -
  have below: "\<forall>x \<in> set (A @ B). x < next_form w"
    using inv ids by (auto simp: inq_inv_def)
  show ?thesis
  proof (cases "form w")
    case None
    with below w0 show ?thesis by (simp add: inq_inv_def inquiry_reply_def Let_def)
  next
    case (Some p)
    obtain i f where p: "p = (i, f)" by (cases p)
    from inv Some p ids have i: "i < next_form w"
      and cnt: "count_list (A @ j # B) i = (if busy f then 1 else 0)"
      by (auto simp: inq_inv_def)
    show ?thesis
    proof (cases "i = j")
      case True
      with cnt have "busy f" and "count_list (A @ B) i = 0" by (auto split: if_splits)
      with True Some p i below w0 show ?thesis
        by (simp add: inq_inv_def inquiry_reply_def Let_def finish_submit_not_busy)
    next
      case False
      with cnt have "count_list (A @ B) i = (if busy f then 1 else 0)" by simp
      with False Some p i below w0 show ?thesis
        by (simp add: inq_inv_def inquiry_reply_def Let_def)
    qed
  qed
qed

lemma inq_inv_deliver:
  assumes inv: "inq_inv w" and k: "k < length (pending w)"
  shows "inq_inv (dispatch (pending w ! k) r (w\<lparr>pending := take k (pending w) @ drop (Suc k) (pending w)\<rparr>))"
    (is "inq_inv (dispatch ?t r ?w0)")
proof -
  let ?A = "inq_ids (take k (pending w))" and ?B = "inq_ids (drop (Suc k) (pending w))"
  have split: "inq_ids (pending w) = ?A @ (case inquiry_of ?t of None \<Rightarrow> [] | Some j \<Rightarrow> [j]) @ ?B"
    using k by (rule inq_ids_remove_nth)
  have rest: "inq_ids (pending ?w0) = ?A @ ?B" by simp
  show ?thesis
  proof (cases ?t)
    case (Await_inquiry j)
    with split have "inq_ids (pending w) = ?A @ j # ?B" by simp
    from inv this rest have "inq_inv (inquiry_reply j r ?w0)"
      by (rule inq_inv_reply) simp_all
    with Await_inquiry show ?thesis by simp
  next
    case Await_products
    with split rest have "inq_inv ?w0" by (intro inq_inv_frame [OF inv]) simp_all
    with Await_products show ?thesis by (simp add: inq_inv_frame)
  next
    case Await_order
    with split rest have "inq_inv ?w0" by (intro inq_inv_frame [OF inv]) simp_all
    with Await_order show ?thesis by (simp add: inq_inv_frame)
  next
    case (Await_intent oid)
    with split rest have "inq_inv ?w0" by (intro inq_inv_frame [OF inv]) simp_all
    with Await_intent show ?thesis by (simp add: inq_inv_frame)
  next
    case (Await_confirm oid ref)
    with split rest have "inq_inv ?w0" by (intro inq_inv_frame [OF inv]) simp_all
    with Await_confirm show ?thesis by (simp add: inq_inv_frame)
  qed
qed

lemma inq_inv_step_event:
  assumes "step_event w e = Some w'" "inq_inv w"
  shows "inq_inv w'"
proof (cases e)
  case (Deliver k r)
  with assms show ?thesis by (auto simp: deliver_def split: if_splits intro: inq_inv_deliver)
next
  case Submit
  with assms show ?thesis by (auto split: option.splits if_splits intro: inq_inv_form_handlers)
next
  case (Navigate x)
  with assms show ?thesis by (auto split: if_splits intro: inq_inv_route)
next
  case (Add_to_cart k)
  with assms show ?thesis by (auto simp: set_cart_def split: if_splits intro: inq_inv_app)
next
  case (Remove k)
  with assms show ?thesis by (auto simp: set_cart_def split: if_splits intro: inq_inv_app)
next
  case Checkout
  with assms show ?thesis by (auto split: if_splits intro: inq_inv_frame)
qed (use assms in \<open>auto split: if_splits intro: inq_inv_catalog inq_inv_form_handlers\<close>)

lemma inq_inv_reachable: "reachable w \<Longrightarrow> \<not> crashed w \<Longrightarrow> inq_inv w"
proof (induction rule: reachable.induct)
  case init
  show ?case
    by (simp add: inq_inv_def init_for_def category_effect_def load_products_def init_contact_form_def
        split: sum.split)
next
  case (step w e w')
  from step.hyps(2) show ?case
  proof (cases rule: step_SomeE)
    case (live z)
    from live(2) step.IH [OF live(1)] have "inq_inv z" by (rule inq_inv_step_event)
    then show ?thesis unfolding live(3) by (rule inq_inv_frame) simp_all
  next
    case unmounted
    with step.prems show ?thesis by simp
  qed
qed

lemma inq_inv_busy:
  assumes "inq_inv w" "form w = Some (i, f)"
  shows "busy f \<longleftrightarrow> Await_inquiry i \<in> set (pending w)"
proof -
  from assms have "count_list (inq_ids (pending w)) i = (if busy f then 1 else 0)"
    by (simp add: inq_inv_def)
  then show ?thesis
    by (metis count_list_0_iff in_inq_ids zero_neq_one)
qed

text \<open>
  C22. In every reachable state of a live page, a mounted contact form is busy (its submit button
  disabled) exactly while its own inquiry is unanswered: a reply always re-enables it,
  and nothing else does.
\<close>

theorem busy_iff_inquiry_pending:
  assumes "reachable w" "\<not> crashed w" "form w = Some (i, f)"
  shows "busy f \<longleftrightarrow> Await_inquiry i \<in> set (pending w)"
  using inq_inv_reachable [OF assms(1,2)] assms(3) by (rule inq_inv_busy)

theorem busy_iff_inquiry_pending_witness:
  "case run init_world [Edit Name ''Asha'', Edit Email ''asha@example.com'', Edit Message ''Ring sizes?'', Submit] of
     None \<Rightarrow> False
   | Some w \<Rightarrow> (case form w of None \<Rightarrow> False
                | Some (i, f) \<Rightarrow> reachable w \<and> \<not> crashed w \<and> busy f \<and>
                                 (busy f \<longleftrightarrow> Await_inquiry i \<in> set (pending w)))"
proof -
  define es where "es = [Edit Name ''Asha'', Edit Email ''asha@example.com'', Edit Message ''Ring sizes?'', Submit]"
  have ev: "map_option (\<lambda>w. (crashed w, map_option (busy \<circ> snd) (form w))) (run init_world es) = Some (False, Some True)"
    unfolding es_def by code_simp
  then obtain w p where r: "run init_world es = Some w" and c: "\<not> crashed w" and fw: "form w = Some p"
    and b: "busy (snd p)"
    by (auto split: option.splits)
  obtain i f where p: "p = (i, f)" by (cases p)
  have reach: "reachable w" using reachable_init_world r by (rule run_reachable)
  have "busy f \<longleftrightarrow> Await_inquiry i \<in> set (pending w)"
    using reach c fw p by (intro busy_iff_inquiry_pending) simp_all
  with reach c fw p b have "case form w of None \<Rightarrow> False
      | Some (i, f) \<Rightarrow> reachable w \<and> \<not> crashed w \<and> busy f \<and> (busy f \<longleftrightarrow> Await_inquiry i \<in> set (pending w))"
    by simp
  then have "case run init_world es of None \<Rightarrow> False
      | Some w \<Rightarrow> (case form w of None \<Rightarrow> False
                   | Some (i, f) \<Rightarrow> reachable w \<and> \<not> crashed w \<and> busy f \<and>
                                    (busy f \<longleftrightarrow> Await_inquiry i \<in> set (pending w)))"
    by (rule run_case_Some [OF r])
  then show ?thesis by (simp only: es_def)
qed

subsection \<open>A backend URL without a scheme\<close>

fun is_get :: "request \<Rightarrow> bool" where
  "is_get (Get_products q) = True"
| "is_get _ = False"

lemma base_frame [simp]:
  "base_url (checkout w) = base_url w"
  "base_url (order_reply r w) = base_url w"
  "base_url (intent_reply oid r w) = base_url w"
  "base_url (confirm_reply r w) = base_url w"
  "base_url (products_reply r w) = base_url w"
  "base_url (load_products cat w) = base_url w"
  "base_url (category_effect c w) = base_url w"
  "base_url (set_category c w) = base_url w"
  "base_url (shop c w) = base_url w"
  "base_url (handle_change fld v w) = base_url w"
  "base_url (handle_submit w) = base_url w"
  "base_url (inquiry_reply i r w) = base_url w"
  "base_url (set_cart g w) = base_url w"
  by (simp_all add: handler_defs set_cart_def Let_def split: sum.split option.split prod.split)

lemma base_dispatch [simp]: "base_url (dispatch t r w) = base_url w"
  by (cases t) simp_all

lemma step_event_base: "step_event w e = Some w' \<Longrightarrow> base_url w' = base_url w"
  by (cases e) (auto simp: deliver_def split: if_splits option.splits)

lemma gets_frame [simp]:
  "filter is_get (sent (checkout w)) = filter is_get (sent w)"
  "filter is_get (sent (order_reply r w)) = filter is_get (sent w)"
  "filter is_get (sent (intent_reply oid r w)) = filter is_get (sent w)"
  "filter is_get (sent (confirm_reply r w)) = filter is_get (sent w)"
  "filter is_get (sent (products_reply r w)) = filter is_get (sent w)"
  "filter is_get (sent (handle_change fld v w)) = filter is_get (sent w)"
  "filter is_get (sent (handle_submit w)) = filter is_get (sent w)"
  "filter is_get (sent (inquiry_reply i r w)) = filter is_get (sent w)"
  "filter is_get (sent (set_cart g w)) = filter is_get (sent w)"
  by (simp_all add: handler_defs set_cart_def Let_def split: sum.split option.split prod.split)

lemma gets_dispatch [simp]: "filter is_get (sent (dispatch t r w)) = filter is_get (sent w)"
  by (cases t) simp_all

lemma loading_dispatch: "loading (app (dispatch t r w)) \<Longrightarrow> loading (app w)"
  by (cases t) (simp_all add: products_reply_def Let_def split: sum.split prod.split)

lemma no_scheme_load:
  assumes "\<not> url_has_scheme (base_url w @ ''/api/products'')"
  shows "filter is_get (sent (load_products cat w)) = filter is_get (sent w) \<and> \<not> loading (app (load_products cat w))"
    "filter is_get (sent (category_effect c w)) = filter is_get (sent w) \<and> \<not> loading (app (category_effect c w))"
  using assms by (simp_all add: load_products_def new_url_def category_effect_def)

lemma no_scheme_category:
  assumes "\<not> url_has_scheme (base_url w @ ''/api/products'')" "\<not> loading (app w)"
  shows "filter is_get (sent (set_category c w)) = filter is_get (sent w) \<and> \<not> loading (app (set_category c w))"
    "filter is_get (sent (shop c w)) = filter is_get (sent w) \<and> \<not> loading (app (shop c w))"
  using assms no_scheme_load(2) [where w = "w\<lparr>app := (app w)\<lparr>category := c\<rparr>\<rparr>" and c = c]
    no_scheme_load(2) [where w = "set_route ''catalog'' (w\<lparr>app := (app w)\<lparr>category := c\<rparr>\<rparr>)" and c = c]
  by (simp_all add: set_category_def shop_def Let_def)

text \<open>
  Under a base URL without a scheme no event sends a product request, and none raises
  the loading flag: \<open>loadProducts\<close> throws before its \<open>fetch\<close>, and its
  \<open>finally\<close> clears the flag at once.
\<close>

definition no_catalog :: "world \<Rightarrow> bool" where
  "no_catalog w \<longleftrightarrow> filter is_get (sent w) = [] \<and> \<not> loading (app w)"

lemma no_catalog_step_event:
  assumes "step_event w e = Some w'" "\<not> url_has_scheme (base_url w @ ''/api/products'')" "no_catalog w"
  shows "no_catalog w'"
proof (cases e)
  case (Deliver k r)
  with assms show ?thesis by (auto simp: deliver_def no_catalog_def dest: loading_dispatch split: if_splits)
next
  case Submit
  with assms show ?thesis by (auto simp: no_catalog_def split: option.splits if_splits)
qed (use assms in \<open>auto simp: no_catalog_def no_scheme_category split: if_splits\<close>)

lemma no_catalog_reachable:
  "reachable w \<Longrightarrow> \<not> url_has_scheme (base_url w @ ''/api/products'') \<Longrightarrow> no_catalog w"
proof (induction rule: reachable.induct)
  case (init b)
  then show ?case
    by (simp add: no_catalog_def init_for_def category_effect_def load_products_def new_url_def init_app_def
        split: if_splits)
next
  case (step w e w')
  from step.hyps(2) show ?case
  proof (cases rule: step_SomeE)
    case (live z)
    have b: "base_url w' = base_url w" using live(2,3) by (simp add: step_event_base)
    with step.prems have "no_catalog w" by (intro step.IH) simp
    with no_catalog_step_event [OF live(2)] step.prems b live(3) show ?thesis
      by (simp add: no_catalog_def)
  next
    case (unmounted k r z)
    from unmounted(3) have z: "step_event w (Deliver k r) = Some z" by simp
    have b: "base_url w' = base_url w" using unmounted(4) by simp
    with step.prems have "no_catalog w" by (intro step.IH) simp
    with no_catalog_step_event [OF z] step.prems b unmounted(4) show ?thesis by (simp add: no_catalog_def)
  qed
qed

text \<open>
  C4. A backend URL without a scheme (such as \<open>api.example.com\<close>, after the
  parser's removal of tabs and newlines) makes \<open>new URL\<close> throw in
  \<open>loadProducts\<close>: in no run does the page ever request the catalog, and the
  loading indicator is never shown.
\<close>

theorem no_catalog_without_scheme:
  assumes "reachable w" "\<not> url_has_scheme (base_url w @ ''/api/products'')"
  shows "Get_products q \<notin> set (sent w) \<and> \<not> loading (app w)"
proof -
  have inv: "no_catalog w" using assms by (rule no_catalog_reachable)
  have "Get_products q \<notin> set (sent w)"
  proof
    assume "Get_products q \<in> set (sent w)"
    then have "filter is_get (sent w) \<noteq> []" by (simp add: filter_empty_conv) (metis is_get.simps(1))
    with inv show False by (simp add: no_catalog_def)
  qed
  with inv show ?thesis by (simp add: no_catalog_def)
qed

theorem no_catalog_without_scheme_witness:
  "case run (init_for ''api.example.com'') [Edit Name ''Asha'', Edit Email ''asha@example.com'', Edit Message ''Hi'', Submit] of
     None \<Rightarrow> False
   | Some w \<Rightarrow> reachable w \<and> \<not> url_has_scheme (base_url w @ ''/api/products'') \<and>
       message (app w) = ''Unable to load products'' \<and>
       sent w = [Post_inquiry \<lparr>fname = ''Asha'', femail = ''asha@example.com'', fphone = [], fmessage = ''Hi''\<rparr>] \<and>
       Get_products None \<notin> set (sent w) \<and> \<not> loading (app w)"
proof -
  define es where "es = [Edit Name ''Asha'', Edit Email ''asha@example.com'', Edit Message ''Hi'', Submit]"
  have ev: "map_option (\<lambda>w. (base_url w, message (app w), sent w)) (run (init_for ''api.example.com'') es) =
      Some (''api.example.com'', ''Unable to load products'',
            [Post_inquiry \<lparr>fname = ''Asha'', femail = ''asha@example.com'', fphone = [], fmessage = ''Hi''\<rparr>])"
    unfolding es_def by code_simp
  then obtain w where r: "run (init_for ''api.example.com'') es = Some w" and b: "base_url w = ''api.example.com''"
    and m: "message (app w) = ''Unable to load products''"
    and t: "sent w = [Post_inquiry \<lparr>fname = ''Asha'', femail = ''asha@example.com'', fphone = [], fmessage = ''Hi''\<rparr>]"
    by (cases "run (init_for ''api.example.com'') es") auto
  have reach: "reachable w" using reachable.init r by (rule run_reachable)
  have u: "\<not> url_has_scheme (base_url w @ ''/api/products'')" unfolding b by code_simp
  from no_catalog_without_scheme [OF reach u, of None] reach u m t r show ?thesis unfolding es_def by simp
qed

end
