(* ===== verification/View.thy ===== *)
theory View
  imports Runs Settle
begin

text \<open>
  What the page shows. \<open>page_view\<close> renders a world as \<open>App\<close> does: it computes the
  memo \<open>filtered\<close>, then the \<open>Navbar\<close> badge (\<open>src/src/components/Navbar.jsx\<close>),
  the panel of the route (the product grid with its \<open>ProductCard\<close>s, the
  \<open>ContactForm\<close> of \<open>src/src/components/ContactForm.jsx\<close>, or the \<open>Cart\<close> of
  \<open>src/src/components/Cart.jsx\<close>) and the message toast. Rendering throws exactly
  where \<open>renders\<close>, the predicate \<open>step\<close> uses to blank the page, says it does.
  Texts are byte strings in UTF-8; styling, icons and the footer are not modelled.
  The last section follows a reply to a product load onto the screen.
\<close>

subsection \<open>Printed numbers and currency\<close>

text \<open>The rupee sign as \<open>Cart.jsx\<close> holds it: U+20B9 in UTF-8.\<close>

definition rupee :: string where
  "rupee = [CHR 0xE2, CHR 0x82, CHR 0xB9]"

text \<open>\<open>n.toFixed(2)\<close> for an integral \<open>n\<close>.\<close>

definition to_fixed2 :: "int \<Rightarrow> string" where
  "to_fixed2 n = string_of_int n @ ''.00''"

subsection \<open>\<open>Cart.jsx\<close>\<close>

record cart_row =
  row_title :: string
  row_qty :: string
  row_amount :: string

text \<open>One line: \<open>{item.title}\<close>, \<open>Qty: {item.qty}\<close>, \<open>{item.price * item.qty}\<close> after the rupee sign.\<close>

definition cart_row_of :: "cart_line \<Rightarrow> cart_row" where
  "cart_row_of item =
     \<lparr>row_title = line_title item, row_qty = ''Qty: '' @ string_of_nat (qty item),
      row_amount = rupee @ string_of_int (line_price item * int (qty item))\<rparr>"

datatype cart_screen = Cart_empty | Cart_lines "cart_row list" string

text \<open>
  The empty-cart text, or the lines (each with its Remove button, the \<open>Remove\<close> event)
  followed by the total and the Checkout button.
\<close>

definition cart_view :: "cart \<Rightarrow> cart_screen" where
  "cart_view items =
     (let total = cart_total items
      in if length items = 0 then Cart_empty else Cart_lines (map cart_row_of items) (rupee @ to_fixed2 total))"

subsection \<open>\<open>Navbar.jsx\<close>\<close>

text \<open>\<open>{cartCount > 0 && <span>{cartCount}</span>}\<close>.\<close>

definition navbar_badge :: "nat \<Rightarrow> string option" where
  "navbar_badge n = (if 0 < n then Some (string_of_nat n) else None)"

subsection \<open>\<open>ContactForm.jsx\<close>\<close>

record form_screen =
  shown_fields :: form_fields
  send_label :: string
  send_disabled :: bool
  status_line :: "string option"

text \<open>
  The four controls show the field values; the button is \<open>disabled={loading}\<close> and
  reads \<open>Sending...\<close> while loading; \<open>{status && <p>{status}</p>}\<close> shows a
  non-empty status.
\<close>

definition form_view :: "contact_form \<Rightarrow> form_screen" where
  "form_view f =
     \<lparr>shown_fields = entries f, send_label = (if busy f then ''Sending...'' else ''Send''),
      send_disabled = busy f,
      status_line = (case status f of None \<Rightarrow> None | Some s \<Rightarrow> if s = [] then None else Some s)\<rparr>"

subsection \<open>The page\<close>

datatype main_screen =
    Home_screen "card list option" form_screen
  | Catalog_screen string "card list option"
  | Contact_screen form_screen
  | Cart_screen cart_screen
  | No_screen

record page =
  page_badge :: "string option"
  page_main :: main_screen
  page_toast :: "string option"

text \<open>The form instance the home or contact panel shows.\<close>

definition mounted_form :: "world \<Rightarrow> contact_form" where
  "mounted_form w = (case form w of Some (i, f) \<Rightarrow> f | None \<Rightarrow> init_contact_form)"

text \<open>\<open>loading ? <p>Loading...</p> : filtered.map(...)\<close>, the loading text as \<open>None\<close>.\<close>

definition grid_screen :: "app_state \<Rightarrow> json \<Rightarrow> js_exn + card list option" where
  "grid_screen st f = (if loading st then Inr None else exn_bind (grid_view f) (\<lambda>cs. Inr (Some cs)))"

definition main_view :: "world \<Rightarrow> json \<Rightarrow> js_exn + main_screen" where
  "main_view w f =
     (let st = app w in
      case panel (route st) of
        Some Home_panel \<Rightarrow> exn_bind (grid_screen st f) (\<lambda>g. Inr (Home_screen g (form_view (mounted_form w))))
      | Some Catalog_panel \<Rightarrow> exn_bind (grid_screen st f) (\<lambda>g. Inr (Catalog_screen (catalog_title (category st)) g))
      | Some Contact_panel \<Rightarrow> Inr (Contact_screen (form_view (mounted_form w)))
      | Some Cart_panel \<Rightarrow> Inr (Cart_screen (cart_view (cart st)))
      | None \<Rightarrow> Inr No_screen)"

definition page_view :: "world \<Rightarrow> js_exn + page" where
  "page_view w =
     exn_bind (filtered (category (app w)) (products (app w))) (\<lambda>f.
     exn_bind (main_view w f) (\<lambda>m.
       Inr \<lparr>page_badge = navbar_badge (length (cart (app w))), page_main = m,
            page_toast = (if message (app w) = [] then None else Some (message (app w)))\<rparr>))"

subsection \<open>Frame: who changes the route\<close>

lemma route_frame [simp]:
  "route (app (checkout w)) = route (app w)"
  "route (app (order_reply r w)) = route (app w)"
  "route (app (intent_reply oid r w)) = route (app w)"
  "route (app (confirm_reply r w)) = route (app w)"
  "route (app (products_reply r w)) = route (app w)"
  "route (app (handle_change fld v w)) = route (app w)"
  "route (app (handle_submit w)) = route (app w)"
  "route (app (inquiry_reply i r w)) = route (app w)"
  "route (app (set_cart g w)) = route (app w)"
  "route (app (set_category c w)) = route (app w)"
  by (simp_all add: handler_defs set_cart_def load_products_def Let_def
      split: sum.split option.split prod.split)

lemma route_dispatch [simp]: "route (app (dispatch t r w)) = route (app w)"
  by (cases t) simp_all

subsection \<open>Properties of the views\<close>

text \<open>
  The rendered page and the crash predicate agree: computing the whole page (memo,
  badge, panel with its cards or form or cart, toast) throws exactly when \<open>renders\<close>
  is false, i.e. exactly in the states after which \<open>step\<close> blanks the page.
\<close>

lemma page_view_throws: "isl (page_view w) \<longleftrightarrow> \<not> renders (app w)"
proof (cases "filtered (category (app w)) (products (app w))")
  case (Inl e)
  then show ?thesis by (simp add: page_view_def renders_def)
next
  case (Inr f)
  have "isl (main_view w f) \<longleftrightarrow> shows_grid (route (app w)) \<and> \<not> loading (app w) \<and> isl (grid_view f)"
    by (auto simp: main_view_def grid_screen_def panel_def shows_grid_def exn_bind_def Let_def
        split: sum.split)
  with Inr show ?thesis
    by (auto simp: page_view_def renders_def exn_bind_def split: sum.split)
qed

text \<open>
  C28. A product card and the cart print the price with different currency bytes: the
  card of a well-formed product shows its title, category and image, and its price
  after the seven bytes \<open>card_currency\<close>. The cart line the same product becomes
  shows the price after the three-byte rupee sign, and the two prefixes differ.
\<close>

theorem price_labels_differ:
  "card_view (json_of_product p) =
     Inr \<lparr>card_image = (case prod_image p of None \<Rightarrow> None | Some s \<Rightarrow> if s = [] then None else Some (JStr s)),
          card_title = prod_title p, card_category = prod_category p,
          card_price = card_currency @ string_of_int (prod_price p)\<rparr> \<and>
   cart_view (on_add p []) =
     Cart_lines [\<lparr>row_title = prod_title p, row_qty = ''Qty: 1'', row_amount = rupee @ string_of_int (prod_price p)\<rparr>]
       (rupee @ to_fixed2 (prod_price p)) \<and>
   card_currency \<noteq> rupee"
proof -
  have card: "card_view (json_of_product p) =
     Inr \<lparr>card_image = (case prod_image p of None \<Rightarrow> None | Some s \<Rightarrow> if s = [] then None else Some (JStr s)),
          card_title = prod_title p, card_category = prod_category p,
          card_price = card_currency @ string_of_int (prod_price p)\<rparr>"
    by (cases "prod_image p") (simp_all add: card_view_def json_of_product_def jsx_child_def)
  have one: "string_of_nat (Suc 0) = ''1''" by code_simp
  have cart: "cart_view (on_add p []) =
     Cart_lines [\<lparr>row_title = prod_title p, row_qty = ''Qty: 1'', row_amount = rupee @ string_of_int (prod_price p)\<rparr>]
       (rupee @ to_fixed2 (prod_price p))"
    by (simp add: cart_view_def on_add_def js_find_index_def new_line_def cart_row_of_def cart_total_def one)
  have "card_currency \<noteq> rupee" by (simp add: card_currency_def rupee_def)
  with card cart show ?thesis by blast
qed

text \<open>
  C27. The catalog panel is entered only from the home panel, by a Shop button: no
  Navbar button leads there, so from the contact or cart panel it takes two steps,
  although the spec lets any view be reached from any other.
\<close>

theorem catalog_only_from_home:
  assumes "step w e = Some w'" "route (app w') = ''catalog''"
  shows "route (app w) = ''catalog'' \<or> (route (app w) = ''home'' \<and> (\<exists>c. e = Shop c))"
  using assms(1)
proof (cases rule: step_SomeE)
  case (live z)
  have "route (app z) = ''catalog''" using assms(2) live(3) by simp
  with live(2) show ?thesis
    by (cases e) (auto simp: nav_targets_def deliver_def shop_def split: if_splits option.splits)
next
  case unmounted
  with assms(2) show ?thesis by simp
qed

subsection \<open>Replies to a product load, and what they do to the page\<close>

lemma step_products_reply:
  assumes "\<not> crashed w" "k < length (pending w)" "pending w ! k = Await_products"
  shows "step w (Deliver k (Reply ok (Json v))) =
           Some (w\<lparr>app := (app w)\<lparr>products := v, loading := False\<rparr>,
                   pending := take k (pending w) @ drop (Suc k) (pending w),
                   crashed := \<not> renders ((app w)\<lparr>products := v, loading := False\<rparr>)\<rparr>)"
  using assms by (simp add: step_Deliver products_reply_def)

lemma card_view_object_title:
  "map_of (rev fs) ''title'' = Some (JObj gs) \<Longrightarrow> isl (card_view (JObj fs))"
  by (simp add: card_view_def jsx_child_def)

lemma grid_view_object_title:
  assumes "JObj fs \<in> set ys" "map_of (rev fs) ''title'' = Some (JObj gs)"
  shows "isl (grid_view (JArr ys))"
proof (cases "JNull \<in> set ys")
  case True
  then show ?thesis by (simp add: grid_view_def grid_items_def)
next
  case False
  have "isl (exn_map card_view ys)"
    unfolding isl_exn_map using assms card_view_object_title by blast
  with False show ?thesis by (simp add: grid_view_def grid_items_def)
qed

lemma filtered_keeps:
  assumes "filtered c (JArr xs) = Inr f" "x \<in> set xs" "c = ''all'' \<or> category_matches c x = Inr True"
  shows "\<exists>ys. f = JArr ys \<and> x \<in> set ys"
proof (cases "c = ''all''")
  case True
  with assms show ?thesis by (auto simp: filtered_def)
next
  case False
  with assms(1) obtain ys where fy: "filter_exn (category_matches c) xs = Inr ys" and f: "f = JArr ys"
    by (auto simp: filtered_def exn_bind_eq_Inr)
  from filter_exn_result_set [OF fy] assms(2,3) False f show ?thesis by auto
qed

text \<open>
  The page cannot render while the grid is on screen and a product to be shown has an
  object as its title, nor when the product list is not an array and the grid is
  shown or the memo filters it.
\<close>

lemma renders_object_title:
  assumes "shows_grid (route st)" "\<not> loading st" "products st = JArr xs" "JObj fs \<in> set xs"
    "map_of (rev fs) ''title'' = Some (JObj gs)"
    "category st = ''all'' \<or> map_of (rev fs) ''category'' = Some (JStr (category st))"
  shows "\<not> renders st"
proof (cases "filtered (category st) (products st)")
  case (Inl e)
  then show ?thesis by (simp add: renders_def)
next
  case (Inr f)
  have "category st = ''all'' \<or> category_matches (category st) (JObj fs) = Inr True"
    using assms(6) by (auto simp: category_matches_def)
  with Inr assms(3,4) obtain ys where "f = JArr ys" "JObj fs \<in> set ys"
    using filtered_keeps by metis
  with assms(1,2,5) Inr show ?thesis by (simp add: renders_def grid_view_object_title)
qed

lemma renders_non_array:
  assumes "\<forall>ys. products st \<noteq> JArr ys" "shows_grid (route st) \<and> \<not> loading st \<or> category st \<noteq> ''all''"
  shows "\<not> renders st"
  using assms by (cases "products st") (auto simp: renders_def filtered_def grid_view_def grid_items_def)

text \<open>
  C17. Product loads are neither sequenced nor checked: the reply to any product
  request still in flight, whatever its status and whichever category it was issued
  for, replaces the product list and clears the loading flag, even while other
  product requests are still unanswered; the category stays as it is and no request
  is sent.
\<close>

theorem product_reply_overwrites:
  assumes "\<not> crashed w" "k < length (pending w)" "pending w ! k = Await_products"
  shows "\<exists>w'. step w (Deliver k (Reply ok (Json v))) = Some w' \<and> products (app w') = v \<and>
           category (app w') = category (app w) \<and> \<not> loading (app w') \<and>
           pending w' = take k (pending w) @ drop (Suc k) (pending w) \<and> sent w' = sent w"
  using step_products_reply [OF assms] by simp

text \<open>
  C18. \<open>loadProducts\<close> checks neither \<open>res.ok\<close> nor the shape of the body: a reply
  whose JSON body is not an array (FastAPI's \<open>{"detail": ...}\<close> on an error
  status, say) becomes the product list, and the page then fails to render and goes
  blank whenever the grid is on screen or a category is selected.
\<close>

theorem error_body_blanks_page:
  assumes "\<not> crashed w" "k < length (pending w)" "pending w ! k = Await_products"
    "\<forall>ys. v \<noteq> JArr ys" "shows_grid (route (app w)) \<or> category (app w) \<noteq> ''all''"
  shows "\<exists>w'. step w (Deliver k (Reply ok (Json v))) = Some w' \<and> products (app w') = v \<and>
           crashed w' \<and> isl (page_view w')"
proof -
  have "\<not> renders ((app w)\<lparr>products := v, loading := False\<rparr>)"
    using assms(4,5) by (intro renders_non_array) simp_all
  with step_products_reply [OF assms(1-3)] show ?thesis by (simp add: page_view_throws)
qed

text \<open>
  C29. A product whose title is an object (a localised title such as
  \<open>{"en": "Ring"}\<close>, say) makes its card throw when React renders the title: once
  the list holding it arrives, the page goes blank whenever the grid is on screen and
  the product is among those shown.
\<close>

theorem object_title_blanks_page:
  assumes "\<not> crashed w" "k < length (pending w)" "pending w ! k = Await_products"
    "shows_grid (route (app w))" "JObj fs \<in> set xs" "map_of (rev fs) ''title'' = Some (JObj gs)"
    "category (app w) = ''all'' \<or> map_of (rev fs) ''category'' = Some (JStr (category (app w)))"
  shows "\<exists>w'. step w (Deliver k (Reply ok (Json (JArr xs)))) = Some w' \<and> crashed w' \<and> isl (page_view w')"
proof -
  have "\<not> renders ((app w)\<lparr>products := JArr xs, loading := False\<rparr>)"
    using assms(4-7) by (intro renders_object_title [where fs = fs and gs = gs]) simp_all
  with step_products_reply [OF assms(1-3)] show ?thesis by (simp add: page_view_throws)
qed

subsection \<open>Witnesses\<close>

theorem catalog_only_from_home_witness:
  "step init_world (Shop ''silver'') = Some (the (step init_world (Shop ''silver''))) \<and>
   route (app (the (step init_world (Shop ''silver'')))) = ''catalog'' \<and>
   route (app init_world) = ''home'' \<and>
   (route (app init_world) = ''catalog'' \<or> (route (app init_world) = ''home'' \<and> (\<exists>c. Shop ''silver'' = Shop c)))"
proof -
  have ev: "map_option (\<lambda>w. route (app w)) (step init_world (Shop ''silver'')) = Some ''catalog''"
    by code_simp
  then obtain w' where s: "step init_world (Shop ''silver'') = Some w'" and r: "route (app w') = ''catalog''"
    by (cases "step init_world (Shop ''silver'')") auto
  from catalog_only_from_home [OF s r] s r show ?thesis
    by (simp add: init_world_def init_for_def backend_base_def category_effect_def load_products_def
        new_url_def default_has_scheme init_app_def)
qed

lemma init_world_state:
  "\<not> crashed init_world \<and> pending init_world = [Await_products] \<and> route (app init_world) = ''home'' \<and>
   category (app init_world) = ''all''"
  by (simp add: init_world_def init_for_def backend_base_def category_effect_def load_products_def
      new_url_def default_has_scheme init_app_def)

definition silver_catalog :: json where
  "silver_catalog =
     JArr [JObj [(''_id'', JStr ''p1''), (''title'', JStr ''Ring''), (''category'', JStr ''silver''), (''price'', JNum 100)]]"

theorem product_reply_overwrites_witness:
  "case run init_world [Deliver 0 (Reply True (Json demo_catalog)), Pick_category ''silver'', Pick_category ''all''] of
     None \<Rightarrow> False
   | Some w \<Rightarrow> \<not> crashed w \<and> 0 < length (pending w) \<and> pending w ! 0 = Await_products \<and>
       category (app w) = ''all'' \<and>
       (\<exists>w'. step w (Deliver 0 (Reply True (Json silver_catalog))) = Some w' \<and> products (app w') = silver_catalog \<and>
          category (app w') = ''all'' \<and> \<not> loading (app w') \<and> pending w' = [Await_products] \<and> sent w' = sent w)"
proof -
  define es where "es = [Deliver 0 (Reply True (Json demo_catalog)), Pick_category ''silver'', Pick_category ''all'']"
  have ev: "map_option (\<lambda>w. (crashed w, pending w, category (app w))) (run init_world es) =
              Some (False, [Await_products, Await_products], ''all'')"
    unfolding es_def demo_catalog_def by code_simp
  then obtain w where r: "run init_world es = Some w" and c: "\<not> crashed w"
    and p: "pending w = [Await_products, Await_products]" and g: "category (app w) = ''all''"
    by (cases "run init_world es") auto
  have k: "0 < length (pending w)" and t: "pending w ! 0 = Await_products" using p by simp_all
  from product_reply_overwrites [OF c k t, of True silver_catalog] c k t g p r
  show ?thesis unfolding es_def by simp
qed

theorem error_body_blanks_page_witness:
  "\<not> crashed init_world \<and> 0 < length (pending init_world) \<and> pending init_world ! 0 = Await_products \<and>
   shows_grid (route (app init_world)) \<and>
   (\<exists>w'. step init_world (Deliver 0 (Reply False (Json (JObj [(''detail'', JStr ''Internal Server Error'')])))) = Some w' \<and>
      products (app w') = JObj [(''detail'', JStr ''Internal Server Error'')] \<and> crashed w' \<and> isl (page_view w'))"
proof -
  have c: "\<not> crashed init_world" and k: "0 < length (pending init_world)"
    and t: "pending init_world ! 0 = Await_products" and g: "shows_grid (route (app init_world))"
    using init_world_state by (simp_all add: shows_grid_def)
  have v: "\<forall>ys. JObj [(''detail'', JStr ''Internal Server Error'')] \<noteq> JArr ys" by simp
  from error_body_blanks_page [OF c k t v, of False] g c k t v show ?thesis by blast
qed

theorem object_title_blanks_page_witness:
  "\<not> crashed init_world \<and> 0 < length (pending init_world) \<and> pending init_world ! 0 = Await_products \<and>
   shows_grid (route (app init_world)) \<and>
   JObj [(''_id'', JStr ''p1''), (''title'', JObj [(''en'', JStr ''Ring'')]), (''category'', JStr ''silver''), (''price'', JNum 100)]
     \<in> set [JObj [(''_id'', JStr ''p1''), (''title'', JObj [(''en'', JStr ''Ring'')]), (''category'', JStr ''silver''), (''price'', JNum 100)]] \<and>
   map_of (rev [(''_id'', JStr ''p1''), (''title'', JObj [(''en'', JStr ''Ring'')]), (''category'', JStr ''silver''), (''price'', JNum 100)])
     ''title'' = Some (JObj [(''en'', JStr ''Ring'')]) \<and>
   category (app init_world) = ''all'' \<and>
   (\<exists>w'. step init_world (Deliver 0 (Reply True (Json (JArr [JObj [(''_id'', JStr ''p1''), (''title'', JObj [(''en'', JStr ''Ring'')]),
        (''category'', JStr ''silver''), (''price'', JNum 100)]])))) = Some w' \<and> crashed w' \<and> isl (page_view w'))"
proof -
  have c: "\<not> crashed init_world" and k: "0 < length (pending init_world)"
    and t: "pending init_world ! 0 = Await_products" and g: "shows_grid (route (app init_world))"
    and a: "category (app init_world) = ''all''"
    using init_world_state by (simp_all add: shows_grid_def)
  have m: "map_of (rev [(''_id'', JStr ''p1''), (''title'', JObj [(''en'', JStr ''Ring'')]), (''category'', JStr ''silver''), (''price'', JNum 100)])
     ''title'' = Some (JObj [(''en'', JStr ''Ring'')])" by simp
  from object_title_blanks_page [OF c k t g _ m, of
      "[JObj [(''_id'', JStr ''p1''), (''title'', JObj [(''en'', JStr ''Ring'')]), (''category'', JStr ''silver''), (''price'', JNum 100)]]" True]
    c k t g m a
  show ?thesis by simp
qed

end
