(* ===== verification/Spec2Isabelle.thy ===== *)
theory Spec2Isabelle
  imports Protocol Settle View
begin

text \<open>
  \<^bold>\<open>A verification model of the Pranesta Jewellery storefront.\<close>

  The program (\<open>src/src/App.jsx\<close> and the components under
  \<open>src/src/components/\<close>) is a React page. One component, \<open>App\<close>, owns six
  pieces of state: the route, the product list, the selected category, the cart, a
  loading flag and a status message. Its handlers change that state, some of them
  across \<open>await\<close>s on \<open>fetch\<close>. \<open>ContactForm\<close> keeps its own fields, busy
  flag and status. \<open>Navbar\<close>, \<open>ProductCard\<close> and \<open>Cart\<close> render state and call
  back into \<open>App\<close>. The backend is external: the model receives its replies as
  values (\<open>reply\<close>), chosen by whoever drives the run.

  \<^bold>\<open>Theories, in import order.\<close>
  \<^item> \<open>Prelude\<close>: the JavaScript array operations the code calls (\<open>findIndex\<close>,
    \<open>filter\<close> with an index, a \<open>filter\<close> whose callback may throw, \<open>join\<close>), decimal
    printing, \<open>exn_bind\<close> for code that may throw, and the shared fact collections
    \<open>handler_defs\<close> and \<open>js_simps\<close>.
  \<^item> \<open>Json\<close>: JSON values (\<open>json\<close>), property access that throws on \<open>null\<close>
    (\<open>js_get\<close>), truthiness and \<open>||\<close>, \<open>String(v)\<close> and template literals, the
    exceptions (\<open>js_exn\<close>), and one \<open>fetch\<close> plus \<open>res.json()\<close>
    (\<open>read_json\<close>). It also has the failed-status check of the checkout
    (\<open>check_ok\<close>).
  \<^item> \<open>Cart\<close>: products and cart lines as records; \<open>on_add\<close> (the updater of
    \<open>onAdd\<close>), \<open>remove_item\<close> (that of \<open>removeItem\<close>) and \<open>cart_total\<close> (the
    \<open>reduce\<close> of \<open>Cart.jsx\<close>). The invariant \<open>cart_wf\<close> says there is at most one
    line per product and every quantity is positive. The abstraction \<open>cart_bag\<close> is
    the multiset of ordered units.
  \<^item> \<open>Form\<close>: the state of \<open>ContactForm\<close> and the pure parts of its handlers.
  \<^item> \<open>Store\<close>: \<open>app_state\<close> (the six \<open>useState\<close> slots) and \<open>world\<close>. The world
    holds the application state, the mounted contact-form instance, the requests
    sent, the suspended continuations (\<open>task\<close>), whether rendering has failed, and
    the backend base URL (\<open>backend_base\<close>, from \<open>VITE_BACKEND_URL\<close>).
    \<open>Store\<close> also has the router \<open>set_route\<close>, which mounts and unmounts the
    contact form, and \<open>set_message\<close>.
  \<^item> \<open>Catalog\<close>: \<open>loadProducts\<close>, cut at its \<open>await\<close> into \<open>load_products\<close> and
    \<open>products_reply\<close>, with the \<open>new URL\<close> that throws when the base URL has no
    scheme (\<open>new_url\<close>); the category effect and buttons; the \<open>useMemo\<close> filter
    (\<open>filtered\<close>); the product grid and each \<open>ProductCard\<close> as rendered
    (\<open>grid_view\<close>, \<open>card_view\<close>, with React's rendering of child values
    \<open>jsx_text\<close> from \<open>Json\<close>); and the product a card hands to \<open>onAdd\<close>
    (\<open>product_of\<close>).
  \<^item> \<open>Checkout\<close>: \<open>checkout\<close>, cut at its three \<open>await\<close>s into \<open>checkout\<close>,
    \<open>order_reply\<close>, \<open>intent_reply\<close> and \<open>confirm_reply\<close>, with the \<open>catch\<close>
    as \<open>checkout_failed\<close>.
  \<^item> \<open>Inquiry\<close>: \<open>handleChange\<close>, \<open>handleSubmit\<close> and its continuation, applied
    to the mounted form instance.
  \<^item> \<open>App\<close>: the events (\<open>event\<close>), which the rendered UI enables; \<open>step\<close>,
    which runs a handler and then renders. Once a render throws, React unmounts the
    tree. No UI event fires after that, and replies still resume their continuations,
    whose requests are sent while their state updates are ignored
    (\<open>deliver_unmounted\<close>). \<open>run\<close> runs over event lists, and \<open>reachable\<close> holds
    the worlds some interleaving produces from the first render (\<open>init_for b\<close>) under
    any base URL \<open>b\<close>.
  \<^item> \<open>Protocol\<close>: the request protocol of the checkout over whole runs
    (\<open>proto_inv\<close>, on the checkout's requests and waiting continuations).
  \<^item> \<open>Runs\<close>: the run invariants of the two in-flight flags: \<open>loading_inv\<close> for
    the catalog and \<open>inq_inv\<close> for the contact form's \<open>busy\<close> flag. Both hold on
    live pages: the state they speak of is unmounted by a crash. Also \<open>no_catalog\<close>:
    under a base URL without a scheme no run ever requests the catalog or raises the
    loading flag.
  \<^item> \<open>Settle\<close>: progress. \<open>work\<close> weighs the continuations in flight and every
    delivered reply lowers it. The three replies of a successful checkout, on a live
    page and on a blank one, are chained here (\<open>checkout_replies\<close>).
  \<^item> \<open>View\<close>: what is shown. It has the \<open>Cart.jsx\<close> view (\<open>cart_view\<close>), the
    \<open>Navbar\<close> badge, the \<open>ContactForm\<close> button and status (\<open>form_view\<close>), and the
    whole page (\<open>page_view\<close>), which throws exactly where \<open>renders\<close> fails, with
    the cards that \<open>Catalog\<close> renders (\<open>card_view\<close>). It also has what a reply to
    a product load does to the page (\<open>step_products_reply\<close>).
  \<^item> This theory: what a user can do while a request is in flight, across the
    checkout or the contact form, the router and the render check.

  \<^bold>\<open>What is proved.\<close> For the cart: \<open>cart_wf\<close> holds in every reachable world
  (rule induction on \<open>reachable\<close>). \<open>on_add\<close> refines adding a unit to the
  multiset \<open>cart_bag\<close>, and the exact shape of the list after adding twice and after
  \<open>remove_item\<close> is proved. For the checkout: the empty-cart no-op, the three-call
  success path, the message on every failure branch (backend \<open>detail\<close>, fallback,
  \<open>null\<close> body, a detail that is an array of objects), the request protocol over
  every interleaving, and that from every reachable live state the three successful
  replies complete a checkout in flight. For the catalog: the request a category
  change issues, the failed-load branch, the effect of any successful reply, the
  filter on well-formed products, and the loading invariant. For the contact form:
  both continuations, and that \<open>busy\<close> is raised exactly while the instance's
  inquiry is in flight. For progress: every delivered reply lowers \<open>work\<close>, so a
  run of replies alone is bounded by it. For the views: the catalog panel is entered
  only from home, and cards and cart print different currency bytes.
  Every theorem is stated for all worlds, all reachable worlds, or all replies of a
  shape; the witnesses run the page on concrete inputs in the kernel
  (\<open>code_simp\<close>). Behaviours the spec does not intend:
  \<^item> a checkout erases lines added while it ran (\<open>Settle\<close>);
  \<^item> checkout can be repeated while one is in flight (this theory);
  \<^item> a reply to an older product request overwrites a newer one, and the first reply
    clears the loading flag while another load is pending (\<open>View\<close>);
  \<^item> a non-array body from the products endpoint, e.g. an error object, blanks the
    page (\<open>View\<close>);
  \<^item> a product whose title is an object blanks the page (\<open>View\<close>);
  \<^item> an inquiry can be resubmitted after the form is remounted (this theory);
  \<^item> a null body surfaces an engine \<open>TypeError\<close>, and a validation error surfaces
    as \<open>[object Object]\<close> (\<open>Checkout\<close>);
  \<^item> a blank page still completes a payment in flight (\<open>Settle\<close>);
  \<^item> a base URL without a scheme stops only the catalog (\<open>Runs\<close>);
  \<^item> the cards print the price after the mis-encoded bytes of the rupee sign, which
    the cart prints correctly (\<open>View\<close>).
  The Navbar's Silver and Oxidised buttons set the route to a value no panel renders,
  and its badge counts lines rather than units; both are plain readings of
  \<open>nav_targets\<close> and \<open>cart_badge\<close>.

  \<^bold>\<open>Concurrency.\<close> JavaScript runs one handler at a time. The interleaving the
  code allows is between continuations: a reply can arrive for any request in flight,
  in any order, between any two user events. \<open>Deliver k r\<close> hands reply \<open>r\<close> to
  the \<open>k\<close>-th suspended continuation. State updates that one handler makes before
  its next \<open>await\<close> are batched into one render, as React 18 does.

  \<^bold>\<open>Not modelled.\<close> Styling and markup. Icons. URL strings: a request is modelled
  by its endpoint and the data its body or query carries. Of the URL parser, only the
  part that decides whether \<open>new URL\<close> throws for want of a scheme is modelled
  (leading controls and spaces stripped, tabs and newlines removed); host validation
  is not. The backend, whose replies are inputs. Floating-point arithmetic: JSON
  numbers are integers and totals are exact. Card elements that are not well-formed
  products cannot be added to the cart (\<open>product_of\<close> is \<open>None\<close>). The CSS
  \<open>capitalize\<close> of the card category and the footer with its year are presentation.
  The category effect runs right after the handler that changes the category, even
  when the render that follows throws (React would not run it); this only adds a
  request after a crash. No fuel is needed anywhere: every recursion of the model is
  structural on a list or a datatype, and progress is the \<open>work\<close> measure.
\<close>

section \<open>Behaviour across components\<close>

text \<open>
  Properties that need the checkout or the contact form together with the router and
  the render check: what a user can do while a request is in flight.
\<close>

lemma renders_route:
  "renders st \<Longrightarrow> \<not> shows_grid r \<Longrightarrow> renders (st\<lparr>route := r\<rparr>)"
  by (auto simp: renders_def split: sum.splits)

text \<open>
  C13. Nothing stops a second checkout while the first is in flight: on the cart panel
  of any live page with a non-empty cart, two clicks on Checkout post the same order
  twice, and both continuations wait for their replies.
\<close>

theorem double_checkout:
  assumes "reachable w" "\<not> crashed w" "route (app w) = ''cart''" "cart (app w) \<noteq> []"
  shows "\<exists>w'. run w [Checkout, Checkout] = Some w' \<and> \<not> crashed w' \<and> cart (app w') = cart (app w) \<and>
           sent w' = sent w @ [Post_order (map order_item_of (cart (app w))) ''Guest'' ''guest@example.com'',
                               Post_order (map order_item_of (cart (app w))) ''Guest'' ''guest@example.com''] \<and>
           pending w' = pending w @ [Await_order, Await_order]"
proof -
  have "renders (app w)" using assms(1,2) by (rule reachable_renders)
  with assms(2-4) show ?thesis by (simp add: step_def checkout_def)
qed

text \<open>
  C23. The in-progress flag belongs to one form instance: while the contact form's
  inquiry is in flight (its button disabled), navigating to the cart and back mounts
  a fresh form, which can be filled in and submitted again. A second inquiry is
  posted while the first is still unanswered.
\<close>

theorem remount_resubmit:
  assumes "reachable w" "\<not> crashed w" "route (app w) = ''contact''" "form w = Some (i, f)" "busy f"
    "n \<noteq> []" "e \<noteq> []" "m \<noteq> []"
  shows "\<exists>w'. run w [Navigate ''cart'', Navigate ''contact'', Edit Name n, Edit Email e, Edit Message m, Submit] = Some w' \<and>
           \<not> crashed w' \<and> Await_inquiry i \<in> set (pending w') \<and>
           sent w' = sent w @ [Post_inquiry \<lparr>fname = n, femail = e, fphone = [], fmessage = m\<rparr>]"
proof -
  have r: "renders (app w)" using assms(1,2) by (rule reachable_renders)
  have "Await_inquiry i \<in> set (pending w)"
    using inq_inv_busy [OF inq_inv_reachable [OF assms(1,2)] assms(4)] assms(5) by simp
  moreover have "renders ((app w)\<lparr>route := ''cart''\<rparr>)" "renders ((app w)\<lparr>route := ''contact''\<rparr>)"
    using r by (simp_all add: renders_route shows_grid_def)
  ultimately show ?thesis using assms(2,3,6-8)
    by (simp add: step_def set_route_def nav_targets_def shows_form_def handle_change_def handle_submit_def
        submit_enabled_def form_valid_def init_contact_form_def empty_form_def start_submit_def)
qed

subsection \<open>Witnesses\<close>

theorem double_checkout_witness:
  "case run init_world [Deliver 0 (Reply True (Json demo_catalog)), Add_to_cart 0, Navigate ''cart''] of
     None \<Rightarrow> False
   | Some w \<Rightarrow> reachable w \<and> \<not> crashed w \<and> route (app w) = ''cart'' \<and> cart (app w) \<noteq> [] \<and>
       (\<exists>w'. run w [Checkout, Checkout] = Some w' \<and> \<not> crashed w' \<and> cart (app w') = cart (app w) \<and>
          sent w' = sent w @ [Post_order (map order_item_of (cart (app w))) ''Guest'' ''guest@example.com'',
                              Post_order (map order_item_of (cart (app w))) ''Guest'' ''guest@example.com''] \<and>
          pending w' = pending w @ [Await_order, Await_order])"
proof -
  define es where "es = [Deliver 0 (Reply True (Json demo_catalog)), Add_to_cart 0, Navigate ''cart'']"
  have ev: "map_option (\<lambda>w. (crashed w, route (app w), length (cart (app w)))) (run init_world es) =
              Some (False, ''cart'', 1)"
    unfolding es_def demo_catalog_def by code_simp
  then obtain w where r: "run init_world es = Some w" and c: "\<not> crashed w" and o: "route (app w) = ''cart''"
    and l: "length (cart (app w)) = 1"
    by (cases "run init_world es") auto
  have reach: "reachable w" using reachable_init_world r by (rule run_reachable)
  have ne: "cart (app w) \<noteq> []" using l by auto
  from double_checkout [OF reach c o ne] reach c o ne r show ?thesis unfolding es_def by simp
qed

theorem remount_resubmit_witness:
  "case run init_world [Navigate ''contact'', Edit Name ''Asha'', Edit Email ''asha@example.com'',
                        Edit Message ''Ring sizes?'', Submit] of
     None \<Rightarrow> False
   | Some w \<Rightarrow> (case form w of None \<Rightarrow> False
       | Some (i, f) \<Rightarrow> reachable w \<and> \<not> crashed w \<and> route (app w) = ''contact'' \<and> busy f \<and>
           ''Asha'' \<noteq> [] \<and> ''asha@example.com'' \<noteq> [] \<and> ''Ring sizes?'' \<noteq> [] \<and>
           (\<exists>w'. run w [Navigate ''cart'', Navigate ''contact'', Edit Name ''Asha'', Edit Email ''asha@example.com'',
                         Edit Message ''Ring sizes?'', Submit] = Some w' \<and>
              \<not> crashed w' \<and> Await_inquiry i \<in> set (pending w') \<and>
              sent w' = sent w @ [Post_inquiry \<lparr>fname = ''Asha'', femail = ''asha@example.com'', fphone = [],
                                                fmessage = ''Ring sizes?''\<rparr>]))"
proof -
  define es where "es = [Navigate ''contact'', Edit Name ''Asha'', Edit Email ''asha@example.com'',
                        Edit Message ''Ring sizes?'', Submit]"
  have ev: "map_option (\<lambda>w. (crashed w, route (app w), map_option (busy \<circ> snd) (form w))) (run init_world es) =
              Some (False, ''contact'', Some True)"
    unfolding es_def by code_simp
  then obtain w p where r: "run init_world es = Some w" and c: "\<not> crashed w" and o: "route (app w) = ''contact''"
    and fw: "form w = Some p" and b: "busy (snd p)"
    by (auto split: option.splits)
  obtain i f where p: "p = (i, f)" by (cases p)
  have reach: "reachable w" using reachable_init_world r by (rule run_reachable)
  have fw': "form w = Some (i, f)" and b': "busy f" using fw b p by simp_all
  from remount_resubmit [OF reach c o fw' b', of "''Asha''" "''asha@example.com''" "''Ring sizes?''"]
    reach c o fw' b' r
  show ?thesis unfolding es_def by simp
qed

end
